theory Spec2Isabelle
  imports Main "HOL-Library.AList"
begin

section \<open>JavaScript values and strings\<close>

text \<open>
  The server is a Node.js program. Strings are modelled as \<open>string\<close>; a \<open>char\<close> stands
  for one code unit in the range 0..255. Plain JavaScript objects used as dictionaries
  are association lists in insertion order (the engine enumerates keys that are array
  indices first; no function below depends on the order). A property read \<open>obj[key]\<close> on a plain object
  consults the object's own properties first and then \<open>Object.prototype\<close>, so a key that
  names a member of \<open>Object.prototype\<close> yields a truthy inherited value even when the
  object has no such own property.
\<close>

definition object_prototype_keys :: "string list" where
  "object_prototype_keys =
     [''constructor'', ''__defineGetter__'', ''__defineSetter__'', ''hasOwnProperty'',
      ''__lookupGetter__'', ''__lookupSetter__'', ''isPrototypeOf'',
      ''propertyIsEnumerable'', ''toString'', ''valueOf'', ''__proto__'',
      ''toLocaleString'']"

datatype 'a js_prop = Own 'a | Inherited string | Absent

definition js_get :: "(string \<times> 'a) list \<Rightarrow> string \<Rightarrow> 'a js_prop" where
  "js_get obj key =
     (case map_of obj key of
        Some v \<Rightarrow> Own v
      | None \<Rightarrow> if key \<in> set object_prototype_keys then Inherited key else Absent)"

text \<open>\<open>String.prototype.split(sep)\<close> for a one-character separator: never returns \<open>[]\<close>.\<close>

fun split_on :: "char \<Rightarrow> string \<Rightarrow> string list" where
  "split_on sep [] = [[]]"
| "split_on sep (c # cs) =
     (if c = sep then [] # split_on sep cs
      else (case split_on sep cs of
              [] \<Rightarrow> [[c]]
            | w # ws \<Rightarrow> (c # w) # ws))"

text \<open>\<open>String.prototype.toLowerCase\<close> on code units 0..255.\<close>

definition toLowerCase_char :: "char \<Rightarrow> char" where
  "toLowerCase_char c =
     (let n = (of_char c :: nat)
      in if (65 \<le> n \<and> n \<le> 90) \<or> (192 \<le> n \<and> n \<le> 222 \<and> n \<noteq> 215)
         then char_of (n + 32) else c)"

definition toLowerCase :: "string \<Rightarrow> string" where
  "toLowerCase s = map toLowerCase_char s"

text \<open>Decimal rendering of a non-negative integer, as a template literal does.\<close>

definition digit_char :: "nat \<Rightarrow> char" where
  "digit_char d = ''0123456789'' ! d"

fun show_nat :: "nat \<Rightarrow> string" where
  "show_nat n = (if n < 10 then [digit_char n] else show_nat (n div 10) @ [digit_char (n mod 10)])"

declare show_nat.simps [simp del]

section \<open>Node's \<open>path.extname\<close> (POSIX)\<close>

text \<open>
  The scan runs from the last character to the first, as the library's loop does:
  \<open>startDot\<close> and \<open>end\<close> are \<open>-1\<close> in the library where they are \<open>None\<close> here.
\<close>

record ext_scan =
  startDot :: "nat option"
  startPart :: nat
  endp :: "nat option"
  matchedSlash :: bool
  preDotState :: int

definition ext_scan_init :: ext_scan where
  "ext_scan_init =
     \<lparr>startDot = None, startPart = 0, endp = None, matchedSlash = True, preDotState = 0\<rparr>"

definition ext_step :: "string \<Rightarrow> nat \<Rightarrow> ext_scan \<Rightarrow> ext_scan" where
  "ext_step p i st =
     (let st1 = (if endp st = None then st\<lparr>endp := Some (i + 1), matchedSlash := False\<rparr>
                 else st)
      in if p ! i = CHR ''.'' then
           (if startDot st1 = None then st1\<lparr>startDot := Some i\<rparr>
            else if preDotState st1 \<noteq> 1 then st1\<lparr>preDotState := 1\<rparr>
            else st1)
         else if startDot st1 \<noteq> None then st1\<lparr>preDotState := - 1\<rparr>
         else st1)"

fun extname_scan :: "string \<Rightarrow> nat \<Rightarrow> ext_scan \<Rightarrow> ext_scan" where
  "extname_scan p 0 st = st"
| "extname_scan p (Suc i) st =
     (if p ! i = CHR ''/'' then
        (if \<not> matchedSlash st then st\<lparr>startPart := i + 1\<rparr>
         else extname_scan p i st)
      else extname_scan p i (ext_step p i st))"

definition extname :: "string \<Rightarrow> string" where
  "extname p =
     (let st = extname_scan p (length p) ext_scan_init
      in case (startDot st, endp st) of
           (Some sd, Some e) \<Rightarrow>
             if preDotState st = 0 \<or>
                (preDotState st = 1 \<and> sd = e - 1 \<and> sd = startPart st + 1)
             then [] else take (e - sd) (drop sd p)
         | _ \<Rightarrow> [])"

section \<open>Language catalog and extension inference\<close>

record language_config =
  command :: string
  args :: "string list"
  timeout :: nat
  compile :: bool
  compileCommand :: "string option"
  compileArgs :: "string list option"
  runCommand :: "string option"

definition languageConfigs :: "(string \<times> language_config) list" where
  "languageConfigs =
     [(''javascript'', \<lparr>command = ''node'', args = [''-e''], timeout = 10000,
          compile = False, compileCommand = None, compileArgs = None, runCommand = None\<rparr>),
      (''python'', \<lparr>command = ''python3'', args = [''-c''], timeout = 10000,
          compile = False, compileCommand = None, compileArgs = None, runCommand = None\<rparr>),
      (''java'', \<lparr>command = ''java'', args = [], timeout = 15000,
          compile = True, compileCommand = Some ''javac'', compileArgs = None,
          runCommand = None\<rparr>),
      (''cpp'', \<lparr>command = ''./temp_program'', args = [], timeout = 15000,
          compile = True, compileCommand = Some ''g++'',
          compileArgs = Some [''-o'', ''temp_program''], runCommand = None\<rparr>),
      (''c'', \<lparr>command = ''./temp_program'', args = [], timeout = 15000,
          compile = True, compileCommand = Some ''gcc'',
          compileArgs = Some [''-o'', ''temp_program''], runCommand = None\<rparr>),
      (''go'', \<lparr>command = ''go'', args = [''run''], timeout = 15000,
          compile = False, compileCommand = None, compileArgs = None, runCommand = None\<rparr>),
      (''rust'', \<lparr>command = ''rustc'',
          args = [''--edition'', ''2021'', ''-o'', ''temp_program''], timeout = 20000,
          compile = True, compileCommand = None, compileArgs = None,
          runCommand = Some ''./temp_program''\<rparr>)]"

definition languageMap :: "(string \<times> string) list" where
  "languageMap =
     [(''.js'', ''javascript''), (''.jsx'', ''javascript''), (''.py'', ''python''),
      (''.java'', ''java''), (''.cpp'', ''cpp''), (''.cxx'', ''cpp''), (''.cc'', ''cpp''),
      (''.c'', ''c''), (''.go'', ''go''), (''.rs'', ''rust'')]"

text \<open>
  The value of \<open>detectedLanguage\<close>: a string, \<open>undefined\<close> (no \<open>language\<close> field in the
  request body), or a member inherited from \<open>Object.prototype\<close>.
\<close>

datatype lang_value = LUndefined | LStr string | LInherited string

text \<open>\<open>languageMap[ext] || 'javascript'\<close>: every own value is a non-empty string.\<close>

definition getLanguageFromExtension :: "string \<Rightarrow> lang_value" where
  "getLanguageFromExtension filename =
     (let ext = toLowerCase (extname filename)
      in case js_get languageMap ext of
           Own l \<Rightarrow> LStr l
         | Inherited k \<Rightarrow> LInherited k
         | Absent \<Rightarrow> LStr ''javascript'')"

text \<open>String conversion of a value inherited from \<open>Object.prototype\<close>.\<close>

definition inherited_to_string :: "string \<Rightarrow> string" where
  "inherited_to_string k =
     (if k = ''__proto__'' then ''[object Object]''
      else ''function '' @ (if k = ''constructor'' then ''Object'' else k) @
           ''() { [native code] }'')"

fun lang_to_string :: "lang_value \<Rightarrow> string" where
  "lang_to_string LUndefined = ''undefined''"
| "lang_to_string (LStr s) = s"
| "lang_to_string (LInherited k) = inherited_to_string k"

fun join :: "string \<Rightarrow> string list \<Rightarrow> string" where
  "join sep [] = []"
| "join sep [x] = x"
| "join sep (x # y # ys) = x @ sep @ join sep (y # ys)"

section \<open>Execution requests\<close>

record exec_request =
  req_code :: string
  req_language :: "string option"
  req_roomId :: string
  req_filename :: "string option"

fun lang_of_field :: "string option \<Rightarrow> lang_value" where
  "lang_of_field None = LUndefined"
| "lang_of_field (Some l) = LStr l"

text \<open>
  \<open>filename ? getLanguageFromExtension(filename) : language\<close>. A missing filename and
  the empty string are both falsy.
\<close>

definition filename_truthy :: "exec_request \<Rightarrow> bool" where
  "filename_truthy req = (case req_filename req of None \<Rightarrow> False | Some f \<Rightarrow> f \<noteq> [])"

definition detectedLanguage :: "exec_request \<Rightarrow> lang_value" where
  "detectedLanguage req =
     (case req_filename req of
        None \<Rightarrow> lang_of_field (req_language req)
      | Some f \<Rightarrow> if f \<noteq> [] then getLanguageFromExtension f
                  else lang_of_field (req_language req))"

text \<open>\<open>languageConfigs[detectedLanguage]\<close>: the key is the value converted to a string.\<close>

definition lookup_config :: "lang_value \<Rightarrow> language_config js_prop" where
  "lookup_config dl = js_get languageConfigs (lang_to_string dl)"

section \<open>The execution orchestrator\<close>

text \<open>
  One request of \<open>POST /api/execute\<close> is a small reactive system: the handler starts
  child processes and a timer, and their callbacks run later, one at a time, on the
  event loop. The model keeps the variables the callbacks close over in a record and
  gives each callback as a state transformer. Assumptions: the executables exist (a
  missing executable is reported by an \<open>error\<close> event, for which the server has no
  listener), and \<open>fs.writeFileSync\<close> and \<open>fs.unlinkSync\<close> succeed.
\<close>

definition nl :: string where
  "nl = [CHR 0x0A]"

datatype exit_status = Exited int | Signalled

record exec_result =
  r_output :: string
  r_exitCode :: "exit_status option"
  r_error :: bool
  r_language :: "lang_value option"

datatype http_response = RoomNotFound | Json exec_result

datatype proc_status = Running | Killed | Closed

record process =
  p_command :: string
  p_args :: "string list"
  p_status :: proc_status

datatype timer_state = Unset | Armed | Cleared | Fired

datatype phase = NoProcess | Interpreting nat | Compiling nat | Executing nat | Finished

record code_executed =
  b_room :: string
  b_output :: string
  b_exitCode :: "exit_status option"
  b_language :: lang_value

text \<open>
  The exceptions that the handler's \<open>try\<close> block can raise: the spread of a value that
  is not iterable, \<open>spawn\<close> called with a command that is not a string, and \<open>spawn\<close>
  called with an argument that holds the code unit 0. The text of \<open>error.message\<close> is
  the engine's; the handler takes it as the parameter \<open>msg\<close>.
\<close>

datatype js_exception = NotIterable | InvalidSpawnFile | InvalidSpawnArg


record exec_state =
  procs :: "process list"
  disk :: "(string \<times> string) list"
  timer :: timer_state
  child :: "nat option"
  output' :: string
  errorOutput :: string
  phase :: phase
  st_roomId :: string
  detected :: lang_value
  st_config :: "language_config option"
  c_language :: string
  timestamp :: nat
  sourceFile :: "string option"
  executableFile :: "string option"
  compileOutput :: string
  compileError :: string
  runOutput :: string
  runError :: string
  response :: "http_response option"
  broadcasts :: "code_executed list"
  crashed :: bool

definition exec_init :: "string \<Rightarrow> lang_value \<Rightarrow> exec_state" where
  "exec_init rid dl =
     \<lparr>procs = [], disk = [], timer = Unset, child = None, output' = [], errorOutput = [],
      phase = NoProcess, st_roomId = rid, detected = dl, st_config = None,
      c_language = [], timestamp = 0, sourceFile = None, executableFile = None,
      compileOutput = [], compileError = [], runOutput = [], runError = [],
      response = None, broadcasts = [], crashed = False\<rparr>"

text \<open>
  \<open>res.json\<close>: the first call sends the response; a second call on the same response
  throws, and an exception thrown inside an event callback is uncaught.
\<close>

definition respond :: "http_response \<Rightarrow> exec_state \<Rightarrow> exec_state" where
  "respond r s = (if response s = None then s\<lparr>response := Some r\<rparr> else s\<lparr>crashed := True\<rparr>)"

text \<open>
  \<open>spawn\<close> starts a child. Node (18.13 and later) refuses, by a synchronous exception,
  a command or an argument that holds the code unit 0. Of all the calls of the server
  only the one of the interpreted branch passes text of the request, the source code,
  as an argument, and the handler tests it there with \<open>has_nul\<close>; the commands of the
  catalog, the paths made of fixed text and digits, and a class name of word characters
  hold no such unit.
\<close>

definition has_nul :: "string \<Rightarrow> bool" where
  "has_nul a = (CHR 0x00 \<in> set a)"

definition spawn :: "string \<Rightarrow> string list \<Rightarrow> exec_state \<Rightarrow> exec_state" where
  "spawn cmd as s =
     s\<lparr>procs := procs s @ [\<lparr>p_command = cmd, p_args = as, p_status = Running\<rparr>]\<rparr>"

definition set_status :: "nat \<Rightarrow> proc_status \<Rightarrow> exec_state \<Rightarrow> exec_state" where
  "set_status pid st s =
     (if pid < length (procs s)
      then s\<lparr>procs := (procs s)[pid := (procs s ! pid)\<lparr>p_status := st\<rparr>]\<rparr> else s)"

definition writeFileSync :: "string \<Rightarrow> string \<Rightarrow> exec_state \<Rightarrow> exec_state" where
  "writeFileSync path data s = s\<lparr>disk := AList.update path data (disk s)\<rparr>"

text \<open>\<open>if (fs.existsSync(f)) fs.unlinkSync(f)\<close>\<close>

definition unlink_if_exists :: "string \<Rightarrow> exec_state \<Rightarrow> exec_state" where
  "unlink_if_exists path s = s\<lparr>disk := AList.delete path (disk s)\<rparr>"

subsection \<open>The class-name scan for Java\<close>

definition is_space :: "char \<Rightarrow> bool" where
  "is_space c = ((of_char c :: nat) \<in> {9, 10, 11, 12, 13, 32, 160})"

definition is_word :: "char \<Rightarrow> bool" where
  "is_word c =
     (let n = (of_char c :: nat)
      in (48 \<le> n \<and> n \<le> 57) \<or> (65 \<le> n \<and> n \<le> 90) \<or> n = 95 \<or> (97 \<le> n \<and> n \<le> 122))"

fun strip_prefix :: "string \<Rightarrow> string \<Rightarrow> string option" where
  "strip_prefix [] s = Some s"
| "strip_prefix (p # ps) [] = None"
| "strip_prefix (p # ps) (c # cs) = (if p = c then strip_prefix ps cs else None)"

text \<open>
  \<open>/public\s+class\s+(\w+)/\<close> anchored at the head of the text: the class name and the
  text after the match. The character classes are disjoint from what follows them, so
  the greedy match is the only one.
\<close>

definition class_match_here :: "string \<Rightarrow> (string \<times> string) option" where
  "class_match_here s =
     (case strip_prefix ''public'' s of
        None \<Rightarrow> None
      | Some r1 \<Rightarrow>
          if takeWhile is_space r1 = [] then None
          else (case strip_prefix ''class'' (dropWhile is_space r1) of
                  None \<Rightarrow> None
                | Some r3 \<Rightarrow>
                    let r4 = dropWhile is_space r3
                    in if takeWhile is_space r3 = [] \<or> takeWhile is_word r4 = [] then None
                       else Some (takeWhile is_word r4, dropWhile is_word r4)))"

text \<open>The leftmost match: the text before it, the class name, the text after it.\<close>

fun class_match :: "string \<Rightarrow> (string \<times> string \<times> string) option" where
  "class_match [] = None"
| "class_match (c # cs) =
     (case class_match_here (c # cs) of
        Some (n, rest) \<Rightarrow> Some ([], n, rest)
      | None \<Rightarrow>
          (case class_match cs of
             Some (pre, n, rest) \<Rightarrow> Some (c # pre, n, rest)
           | None \<Rightarrow> None))"

text \<open>\<open>String.prototype.replace(pattern, replacement)\<close> for a string pattern.\<close>

fun replace_first :: "string \<Rightarrow> string \<Rightarrow> string \<Rightarrow> string" where
  "replace_first pat rep [] = (if pat = [] then rep else [])"
| "replace_first pat rep (c # cs) =
     (case strip_prefix pat (c # cs) of
        Some rest \<Rightarrow> rep @ rest
      | None \<Rightarrow> c # replace_first pat rep cs)"

subsection \<open>Compiled languages\<close>

definition java_source :: "string \<Rightarrow> string" where
  "java_source code =
     (case class_match code of
        Some (pre, className, rest) \<Rightarrow> pre @ ''public class '' @ className @ rest
      | None \<Rightarrow> code)"

text \<open>
  The synchronous part of \<open>executeCompiledLanguage\<close>: write the source file, start the
  compiler. \<open>spawn(undefined, ...)\<close> throws.
\<close>

definition executeCompiledLanguage ::
  "string \<Rightarrow> string \<Rightarrow> string option \<Rightarrow> nat \<Rightarrow> language_config \<Rightarrow> exec_state
     \<Rightarrow> (js_exception \<times> exec_state) + exec_state" where
  "executeCompiledLanguage language code filename now config s =
     (let ts = show_nat now;
          s1 = s\<lparr>c_language := language, timestamp := now\<rparr>;
          s2 = (if language = ''java'' then
                  writeFileSync (''/tmp/TempClass'' @ ts @ ''.java'') (java_source code)
                    (s1\<lparr>sourceFile := Some (''/tmp/TempClass'' @ ts @ ''.java'')\<rparr>)
                else if language = ''cpp'' \<or> language = ''c'' then
                  writeFileSync
                    (''/tmp/temp'' @ ts @ (if language = ''cpp'' then ''.cpp'' else ''.c'')) code
                    (s1\<lparr>sourceFile :=
                          Some (''/tmp/temp'' @ ts @ (if language = ''cpp'' then ''.cpp'' else ''.c'')),
                        executableFile := Some (''/tmp/temp'' @ ts)\<rparr>)
                else if language = ''rust'' then
                  writeFileSync (''/tmp/temp'' @ ts @ ''.rs'') code
                    (s1\<lparr>sourceFile := Some (''/tmp/temp'' @ ts @ ''.rs''),
                        executableFile := Some (''/tmp/temp'' @ ts)\<rparr>)
                else s1);
          compile_args =
             (if language = ''java'' then [''/tmp/TempClass'' @ ts @ ''.java'']
              else if language = ''cpp'' \<or> language = ''c'' \<or> language = ''rust'' then
                (case (sourceFile s2, executableFile s2) of
                   (Some src, Some exe) \<Rightarrow> [src, ''-o'', exe]
                 | _ \<Rightarrow> [])
              else [])
      in case compileCommand config of
           None \<Rightarrow> Inl (InvalidSpawnFile, s2)
         | Some cmd \<Rightarrow> Inr ((spawn cmd compile_args s2)\<lparr>phase := Compiling (length (procs s2))\<rparr>))"

text \<open>The callback given to \<open>executeCompiledLanguage\<close> by the request handler.\<close>

definition compiled_callback :: "exec_result \<Rightarrow> exec_state \<Rightarrow> exec_state" where
  "compiled_callback result s =
     respond (Json result)
       (s\<lparr>timer := Cleared,
          broadcasts := broadcasts s @
            [\<lparr>b_room = st_roomId s, b_output = r_output result,
              b_exitCode = r_exitCode result, b_language = detected s\<rparr>]\<rparr>)"

text \<open>\<open>compileProcess.on('close', ...)\<close>\<close>

definition compile_closed :: "exit_status \<Rightarrow> exec_state \<Rightarrow> exec_state" where
  "compile_closed code s =
     (if code \<noteq> Exited 0 then
        compiled_callback
          \<lparr>r_output = ''Compilation failed:'' @ nl @ compileError s, r_exitCode = Some code,
           r_error = True, r_language = None\<rparr>
          (s\<lparr>phase := Finished\<rparr>)
      else if c_language s = ''java'' then
        (case (case sourceFile s of None \<Rightarrow> None | Some src \<Rightarrow> map_of (disk s) src) of
           None \<Rightarrow> s\<lparr>phase := Finished, crashed := True\<rparr>
         | Some text \<Rightarrow>
             (spawn ''java''
                [''-cp'', ''/tmp'',
                 (case class_match text of
                    Some (pre, className, rest) \<Rightarrow> className
                  | None \<Rightarrow> ''TempClass'' @ show_nat (timestamp s))] s)
             \<lparr>phase := Executing (length (procs s))\<rparr>)
      else
        (case executableFile s of
           None \<Rightarrow> s\<lparr>phase := Finished, crashed := True\<rparr>
         | Some exe \<Rightarrow> (spawn exe [] s)\<lparr>phase := Executing (length (procs s))\<rparr>))"

text \<open>The cleanup block of \<open>runProcess.on('close', ...)\<close>\<close>

definition cleanup :: "exec_state \<Rightarrow> exec_state" where
  "cleanup s =
     (let s1 = (case sourceFile s of None \<Rightarrow> s | Some src \<Rightarrow> unlink_if_exists src s);
          s2 = (case executableFile s of None \<Rightarrow> s1 | Some exe \<Rightarrow> unlink_if_exists exe s1)
      in if c_language s = ''java'' then
           (case sourceFile s of
              None \<Rightarrow> s2
            | Some src \<Rightarrow> unlink_if_exists (replace_first ''.java'' ''.class'' src) s2)
         else s2)"

definition run_closed :: "exit_status \<Rightarrow> exec_state \<Rightarrow> exec_state" where
  "run_closed code s =
     compiled_callback
       \<lparr>r_output = runOutput s @ (if runError s \<noteq> [] then nl @ ''Error: '' @ runError s else []),
        r_exitCode = Some code, r_error = (code \<noteq> Exited 0), r_language = None\<rparr>
       ((cleanup s)\<lparr>phase := Finished\<rparr>)"

subsection \<open>The request handler and its callbacks\<close>

text \<open>
  The notice prints \<open>config.timeout / 1000\<close>; every timeout of the catalog is a multiple
  of 1000.
\<close>

definition timeout_notice :: "language_config \<Rightarrow> string" where
  "timeout_notice config =
     nl @ ''[Execution timed out after '' @ show_nat (timeout config div 1000) @ '' seconds]''"

text \<open>\<open>child.kill()\<close> signals a child that has not exited yet.\<close>

definition kill :: "nat \<Rightarrow> exec_state \<Rightarrow> exec_state" where
  "kill pid s =
     (if pid < length (procs s) \<and> p_status (procs s ! pid) = Running
      then set_status pid Killed s else s)"

text \<open>The \<open>setTimeout\<close> callback.\<close>

definition timer_expired :: "exec_state \<Rightarrow> exec_state" where
  "timer_expired s =
     (case st_config s of
        None \<Rightarrow> s
      | Some config \<Rightarrow>
          respond
            (Json \<lparr>r_output = output' s @ timeout_notice config, r_exitCode = None,
                   r_error = True, r_language = None\<rparr>)
            ((case child s of None \<Rightarrow> s | Some c \<Rightarrow> kill c s)\<lparr>timer := Fired\<rparr>))"

text \<open>\<open>child.on('close', ...)\<close> of the interpreted branch.\<close>

definition interp_closed :: "exit_status \<Rightarrow> exec_state \<Rightarrow> exec_state" where
  "interp_closed code s =
     (let finalOutput =
            output' s @ (if errorOutput s \<noteq> [] then nl @ ''Error: '' @ errorOutput s else [])
      in respond
           (Json \<lparr>r_output = finalOutput, r_exitCode = Some code,
                  r_error = (code \<noteq> Exited 0), r_language = Some (detected s)\<rparr>)
           (s\<lparr>timer := Cleared, phase := Finished,
              broadcasts := broadcasts s @
                [\<lparr>b_room = st_roomId s, b_output = finalOutput, b_exitCode = Some code,
                  b_language = detected s\<rparr>]\<rparr>))"

text \<open>The \<open>catch\<close> block of the handler.\<close>

definition catch_error ::
  "(js_exception \<Rightarrow> string) \<Rightarrow> js_exception \<Rightarrow> exec_state \<Rightarrow> exec_state" where
  "catch_error msg e s =
     respond
       (Json \<lparr>r_output = ''Execution error: '' @ msg e, r_exitCode = None,
              r_error = True, r_language = Some (detected s)\<rparr>)
       (s\<lparr>timer := Cleared\<rparr>)"

definition unsupported_result :: "lang_value \<Rightarrow> exec_result" where
  "unsupported_result dl =
     \<lparr>r_output = ''Unsupported language: '' @ lang_to_string dl @
                 ''. Supported languages: '' @ join '', '' (map fst languageConfigs),
      r_exitCode = None, r_error = True, r_language = None\<rparr>"

text \<open>
  The synchronous part of the handler; \<open>rooms\<close> lists the ids of the existing rooms,
  \<open>now\<close> is \<open>Date.now()\<close> and \<open>msg\<close> gives the message of an exception. A
  configuration inherited from \<open>Object.prototype\<close> has no \<open>timeout\<close>, \<open>compile\<close> or
  \<open>args\<close>: the interpreted branch is taken and the spread \<open>[...config.args]\<close> throws.
  In the interpreted branch \<open>spawn\<close> throws when the source code holds the code unit 0.
\<close>

definition execute ::
  "(js_exception \<Rightarrow> string) \<Rightarrow> string list \<Rightarrow> nat \<Rightarrow> exec_request \<Rightarrow> exec_state" where
  "execute msg rooms now req =
     (let dl = detectedLanguage req;
          s0 = exec_init (req_roomId req) dl
      in if req_roomId req \<notin> set rooms then respond RoomNotFound s0
         else
           (case lookup_config dl of
              Absent \<Rightarrow> respond (Json (unsupported_result dl)) s0
            | Inherited k \<Rightarrow> catch_error msg NotIterable (s0\<lparr>timer := Armed\<rparr>)
            | Own config \<Rightarrow>
                (let s1 = s0\<lparr>timer := Armed, st_config := Some config\<rparr>
                 in if compile config then
                      (case executeCompiledLanguage (lang_to_string dl) (req_code req)
                              (req_filename req) now config s1 of
                         Inl (e, s2) \<Rightarrow> catch_error msg e s2
                       | Inr s2 \<Rightarrow> s2)
                    else if dl = LStr ''go'' then
                      (let tempFile = ''temp_'' @ show_nat now @ ''.go'';
                           s2 = writeFileSync tempFile (req_code req) s1
                       in (spawn (command config) [args config ! 0, tempFile] s2)
                          \<lparr>child := Some (length (procs s2)),
                           phase := Interpreting (length (procs s2))\<rparr>)
                    else if has_nul (req_code req) then catch_error msg InvalidSpawnArg s1
                    else
                      (spawn (command config) (args config @ [req_code req]) s1)
                      \<lparr>child := Some (length (procs s1)),
                       phase := Interpreting (length (procs s1))\<rparr>)))"

text \<open>
  What the event loop may deliver afterwards: data written by a child, the exit of a child,
  the expiry of the timer, and a file written by a child (a compiler's artifact).
\<close>

datatype event =
    Stdout nat string
  | Stderr nat string
  | Close nat exit_status
  | TimerFire
  | FileCreated string

definition on_stdout :: "nat \<Rightarrow> string \<Rightarrow> exec_state \<Rightarrow> exec_state" where
  "on_stdout pid d s =
     (case phase s of
        Interpreting c \<Rightarrow> if pid = c then s\<lparr>output' := output' s @ d\<rparr> else s
      | Compiling c \<Rightarrow> if pid = c then s\<lparr>compileOutput := compileOutput s @ d\<rparr> else s
      | Executing c \<Rightarrow> if pid = c then s\<lparr>runOutput := runOutput s @ d\<rparr> else s
      | _ \<Rightarrow> s)"

definition on_stderr :: "nat \<Rightarrow> string \<Rightarrow> exec_state \<Rightarrow> exec_state" where
  "on_stderr pid d s =
     (case phase s of
        Interpreting c \<Rightarrow> if pid = c then s\<lparr>errorOutput := errorOutput s @ d\<rparr> else s
      | Compiling c \<Rightarrow> if pid = c then s\<lparr>compileError := compileError s @ d\<rparr> else s
      | Executing c \<Rightarrow> if pid = c then s\<lparr>runError := runError s @ d\<rparr> else s
      | _ \<Rightarrow> s)"

definition on_close :: "nat \<Rightarrow> exit_status \<Rightarrow> exec_state \<Rightarrow> exec_state" where
  "on_close pid code s =
     (case phase s of
        Interpreting c \<Rightarrow> if pid = c then interp_closed code (set_status pid Closed s) else s
      | Compiling c \<Rightarrow> if pid = c then compile_closed code (set_status pid Closed s) else s
      | Executing c \<Rightarrow> if pid = c then run_closed code (set_status pid Closed s) else s
      | _ \<Rightarrow> s)"

definition on_event :: "event \<Rightarrow> exec_state \<Rightarrow> exec_state" where
  "on_event ev s =
     (if crashed s then s
      else case ev of
        Stdout pid d \<Rightarrow> on_stdout pid d s
      | Stderr pid d \<Rightarrow> on_stderr pid d s
      | Close pid code \<Rightarrow> on_close pid code s
      | TimerFire \<Rightarrow> if timer s = Armed then timer_expired s else s
      | FileCreated path \<Rightarrow> writeFileSync path [] s)"

fun run_events :: "event list \<Rightarrow> exec_state \<Rightarrow> exec_state" where
  "run_events [] s = s"
| "run_events (ev # evs) s = run_events evs (on_event ev s)"

text \<open>
  Event sequences in which a child only writes: no exit and no timer expiry. The data
  that child \<open>pid\<close> writes to its standard output in such a sequence.
\<close>

fun output_only :: "event \<Rightarrow> bool" where
  "output_only (Stdout pid d) = True"
| "output_only (Stderr pid d) = True"
| "output_only (Close pid code) = False"
| "output_only TimerFire = False"
| "output_only (FileCreated path) = True"

fun stdout_data :: "nat \<Rightarrow> event list \<Rightarrow> string" where
  "stdout_data pid [] = []"
| "stdout_data pid (Stdout p d # evs) = (if p = pid then d @ stdout_data pid evs else stdout_data pid evs)"
| "stdout_data pid (Stderr p d # evs) = stdout_data pid evs"
| "stdout_data pid (Close p code # evs) = stdout_data pid evs"
| "stdout_data pid (TimerFire # evs) = stdout_data pid evs"
| "stdout_data pid (FileCreated path # evs) = stdout_data pid evs"



section \<open>The shared workspace\<close>

text \<open>
  The tree of a room is a graph of JavaScript objects that the handlers mutate in place.
  \<open>rename-file\<close> copies a node with \<open>{...file}\<close>, and the copy shares the \<open>children\<close>
  object of the original, so the model keeps an explicit store: nodes and child maps
  live in two lists and refer to each other by index. \<open>root\<close> is \<open>files['/']\<close>; it is
  \<open>None\<close> for the empty object \<open>{}\<close> that \<open>code-change\<close> and \<open>create-file\<close> install for a
  room without files.
\<close>

record node =
  name :: string
  path :: "string option"
  type :: "string option"
  content :: "string option"
  children :: "nat option"
  createdAt :: "nat option"

record files =
  root :: "nat option"
  nodes :: "node list"
  cmaps :: "(string \<times> nat) list list"

definition empty_files :: files where
  "empty_files = \<lparr>root = None, nodes = [], cmaps = []\<rparr>"

text \<open>
  What a variable of the path walks may hold: \<open>undefined\<close>, \<open>null\<close>, a node of the
  store, or a member of \<open>Object.prototype\<close> that a child map inherits.
\<close>

datatype jsval = Undefined | Null | NodeRef nat | ProtoMember string

fun truthy :: "jsval \<Rightarrow> bool" where
  "truthy Undefined = False"
| "truthy Null = False"
| "truthy (NodeRef a) = True"
| "truthy (ProtoMember k) = True"

datatype ws_error = TypeError | ProtoAssigned

text \<open>
  \<open>TypeError\<close>: a property of \<open>undefined\<close> is read or written; the exception leaves the
  event handler uncaught. \<open>ProtoAssigned\<close>: the assignment
  \<open>current.children['__proto__'] = node\<close> replaces the prototype of the child map
  instead of adding an entry; the model does not follow the store beyond that point.
\<close>

definition root_val :: "files \<Rightarrow> jsval" where
  "root_val fs = (case root fs of None \<Rightarrow> Undefined | Some r \<Rightarrow> NodeRef r)"

text \<open>
  \<open>current.children\<close>: throws on \<open>undefined\<close> and \<open>null\<close>; \<open>Inr None\<close> is the value
  \<open>undefined\<close> (a file node, or a member of \<open>Object.prototype\<close>).
\<close>

fun children_of :: "files \<Rightarrow> jsval \<Rightarrow> ws_error + nat option" where
  "children_of fs Undefined = Inl TypeError"
| "children_of fs Null = Inl TypeError"
| "children_of fs (NodeRef a) = Inr (if a < length (nodes fs) then children (nodes fs ! a) else None)"
| "children_of fs (ProtoMember k) = Inr None"

text \<open>\<open>current.children[part]\<close> for the child map at address \<open>m\<close>.\<close>

definition get_child :: "files \<Rightarrow> nat \<Rightarrow> string \<Rightarrow> jsval" where
  "get_child fs m part =
     (if m < length (cmaps fs) then
        (case js_get (cmaps fs ! m) part of
           Own a \<Rightarrow> NodeRef a
         | Inherited k \<Rightarrow> ProtoMember k
         | Absent \<Rightarrow> Undefined)
      else Undefined)"

text \<open>\<open>filePath.split('/').filter(part => part !== '')\<close>\<close>

definition path_parts :: "string \<Rightarrow> string list" where
  "path_parts filePath = filter (\<lambda>part. part \<noteq> []) (split_on CHR ''/'' filePath)"

text \<open>
  \<open>parts.pop()\<close> used as a property key: the last segment, or \<open>undefined\<close> for an empty
  list, and the key \<open>undefined\<close> is the string \<open>"undefined"\<close>.
\<close>

definition popped_key :: "string list \<Rightarrow> string" where
  "popped_key parts = (if parts = [] then ''undefined'' else last parts)"

subsection \<open>getFileFromPath\<close>

fun get_walk :: "files \<Rightarrow> jsval \<Rightarrow> string list \<Rightarrow> jsval" where
  "get_walk fs current [] = current"
| "get_walk fs current (part # parts) =
     (if truthy current then
        (case children_of fs current of
           Inr (Some m) \<Rightarrow>
             if truthy (get_child fs m part) then get_walk fs (get_child fs m part) parts
             else Null
         | _ \<Rightarrow> Null)
      else Null)"

definition getFileFromPath :: "files \<Rightarrow> string \<Rightarrow> jsval" where
  "getFileFromPath fs filePath = get_walk fs (root_val fs) (path_parts filePath)"

subsection \<open>setFileAtPath\<close>

definition set_child :: "nat \<Rightarrow> string \<Rightarrow> nat \<Rightarrow> files \<Rightarrow> files" where
  "set_child m key a fs =
     (if m < length (cmaps fs)
      then fs\<lparr>cmaps := (cmaps fs)[m := AList.update key a (cmaps fs ! m)]\<rparr> else fs)"

definition alloc_node :: "node \<Rightarrow> files \<Rightarrow> files" where
  "alloc_node n fs = fs\<lparr>nodes := nodes fs @ [n]\<rparr>"

definition alloc_cmap :: "files \<Rightarrow> files" where
  "alloc_cmap fs = fs\<lparr>cmaps := cmaps fs @ [[]]\<rparr>"

text \<open>\<open>current.children[part] = { name: part, type: 'directory', children: {} }\<close>\<close>

definition add_directory :: "nat \<Rightarrow> string \<Rightarrow> files \<Rightarrow> files" where
  "add_directory m part fs =
     set_child m part (length (nodes fs))
       (alloc_node
          \<lparr>name = part, path = None, type = Some ''directory'', content = None,
           children = Some (length (cmaps fs)), createdAt = None\<rparr>
          (alloc_cmap fs))"

fun set_walk :: "files \<Rightarrow> jsval \<Rightarrow> string list \<Rightarrow> ws_error + (files \<times> jsval)" where
  "set_walk fs current [] = Inr (fs, current)"
| "set_walk fs current (part # parts) =
     (case children_of fs current of
        Inl e \<Rightarrow> Inl e
      | Inr None \<Rightarrow> Inl TypeError
      | Inr (Some m) \<Rightarrow>
          (let fs1 = (if \<not> truthy (get_child fs m part) then add_directory m part fs else fs)
           in set_walk fs1 (get_child fs1 m part) parts))"

text \<open>The node \<open>fileData\<close> is already in the store, at address \<open>a\<close>.\<close>

definition setFileAtPath :: "files \<Rightarrow> string \<Rightarrow> nat \<Rightarrow> ws_error + files" where
  "setFileAtPath fs filePath a =
     (let parts = path_parts filePath
      in case set_walk fs (root_val fs) (butlast parts) of
           Inl e \<Rightarrow> Inl e
         | Inr (fs1, current) \<Rightarrow>
             (case children_of fs1 current of
                Inl e \<Rightarrow> Inl e
              | Inr None \<Rightarrow> Inl TypeError
              | Inr (Some m) \<Rightarrow>
                  if popped_key parts = ''__proto__'' then Inl ProtoAssigned
                  else Inr (set_child m (popped_key parts) a fs1)))"

subsection \<open>deleteFileAtPath\<close>

text \<open>The walk to the parent directory: \<open>Inr None\<close> is the early \<open>return false\<close>.\<close>

fun del_walk :: "files \<Rightarrow> jsval \<Rightarrow> string list \<Rightarrow> ws_error + jsval option" where
  "del_walk fs current [] = Inr (Some current)"
| "del_walk fs current (part # parts) =
     (case children_of fs current of
        Inl e \<Rightarrow> Inl e
      | Inr None \<Rightarrow> Inr None
      | Inr (Some m) \<Rightarrow>
          if truthy (get_child fs m part) then del_walk fs (get_child fs m part) parts
          else Inr None)"

text \<open>\<open>delete current.children[fileName]\<close> removes an own property only.\<close>

definition delete_child :: "nat \<Rightarrow> string \<Rightarrow> files \<Rightarrow> files" where
  "delete_child m key fs =
     (if m < length (cmaps fs)
      then fs\<lparr>cmaps := (cmaps fs)[m := AList.delete key (cmaps fs ! m)]\<rparr> else fs)"

definition deleteFileAtPath :: "files \<Rightarrow> string \<Rightarrow> ws_error + (bool \<times> files)" where
  "deleteFileAtPath fs filePath =
     (let parts = path_parts filePath
      in case del_walk fs (root_val fs) (butlast parts) of
           Inl e \<Rightarrow> Inl e
         | Inr None \<Rightarrow> Inr (False, fs)
         | Inr (Some current) \<Rightarrow>
             (case children_of fs current of
                Inl e \<Rightarrow> Inl e
              | Inr None \<Rightarrow> Inr (False, fs)
              | Inr (Some m) \<Rightarrow>
                  if truthy (get_child fs m (popped_key parts))
                  then Inr (True, delete_child m (popped_key parts) fs)
                  else Inr (False, fs)))"

subsection \<open>The socket handlers, on one room's tree\<close>

text \<open>\<open>code-change\<close>: \<open>if (file && file.type === 'file') file.content = content\<close>\<close>

definition code_change :: "string \<Rightarrow> string \<Rightarrow> files \<Rightarrow> files" where
  "code_change filePath text fs =
     (case getFileFromPath fs filePath of
        NodeRef a \<Rightarrow>
          if a < length (nodes fs) \<and> type (nodes fs ! a) = Some ''file''
          then fs\<lparr>nodes := (nodes fs)[a := (nodes fs ! a)\<lparr>content := Some text\<rparr>]\<rparr>
          else fs
      | _ \<Rightarrow> fs)"

text \<open>
  \<open>create-file\<close>: \<open>content\<close> defaults to the empty string and \<open>type\<close> to \<open>'file'\<close> when
  the message lacks them; \<open>now\<close> is \<open>new Date()\<close>.
\<close>

definition create_file ::
  "string \<Rightarrow> string option \<Rightarrow> string option \<Rightarrow> nat \<Rightarrow> files \<Rightarrow> ws_error + files" where
  "create_file filePath content_opt type_opt now fs =
     (let text = (case content_opt of None \<Rightarrow> [] | Some c \<Rightarrow> c);
          ty = (case type_opt of None \<Rightarrow> ''file'' | Some t \<Rightarrow> t);
          fileName = last (split_on CHR ''/'' filePath);
          fileData = \<lparr>name = fileName, path = Some filePath, type = Some ty,
                      content = Some text, children = None, createdAt = Some now\<rparr>;
          fs1 = (if ty = ''directory''
                 then alloc_node (fileData\<lparr>children := Some (length (cmaps fs)), content := None\<rparr>)
                        (alloc_cmap fs)
                 else alloc_node fileData fs)
      in setFileAtPath fs1 filePath (length (nodes fs)))"

definition delete_file :: "string \<Rightarrow> files \<Rightarrow> ws_error + files" where
  "delete_file filePath fs =
     (case deleteFileAtPath fs filePath of Inl e \<Rightarrow> Inl e | Inr (b, fs1) \<Rightarrow> Inr fs1)"

text \<open>
  \<open>rename-file\<close>: \<open>{ ...file, name: newName, path: newPath }\<close> copies the own properties
  of \<open>file\<close>; a member of \<open>Object.prototype\<close> has none that is enumerable.
\<close>

definition rename_file :: "string \<Rightarrow> string \<Rightarrow> files \<Rightarrow> ws_error + files" where
  "rename_file oldPath newPath fs =
     (let file = getFileFromPath fs oldPath
      in if truthy file then
           (let newName = last (split_on CHR ''/'' newPath);
                newFile =
                  (case file of
                     NodeRef a \<Rightarrow>
                       (if a < length (nodes fs)
                        then (nodes fs ! a)\<lparr>name := newName, path := Some newPath\<rparr>
                        else \<lparr>name = newName, path = Some newPath, type = None,
                              content = None, children = None, createdAt = None\<rparr>)
                   | _ \<Rightarrow> \<lparr>name = newName, path = Some newPath, type = None,
                            content = None, children = None, createdAt = None\<rparr>)
            in case deleteFileAtPath fs oldPath of
                 Inl e \<Rightarrow> Inl e
               | Inr (b, fs1) \<Rightarrow>
                   setFileAtPath (alloc_node newFile fs1) newPath (length (nodes fs1)))
         else Inr fs)"

datatype tree_op =
    Create string "string option" "string option" nat
  | Edit string string
  | Delete string
  | Rename string string

fun apply_op :: "tree_op \<Rightarrow> files \<Rightarrow> ws_error + files" where
  "apply_op (Create filePath content_opt type_opt now) fs =
     create_file filePath content_opt type_opt now fs"
| "apply_op (Edit filePath text) fs = Inr (code_change filePath text fs)"
| "apply_op (Delete filePath) fs = delete_file filePath fs"
| "apply_op (Rename oldPath newPath) fs = rename_file oldPath newPath fs"

fun apply_ops :: "tree_op list \<Rightarrow> files \<Rightarrow> ws_error + files" where
  "apply_ops [] fs = Inr fs"
| "apply_ops (op # ops) fs =
     (case apply_op op fs of Inl e \<Rightarrow> Inl e | Inr fs1 \<Rightarrow> apply_ops ops fs1)"

text \<open>The tree that \<open>POST /api/rooms/create\<close> installs.\<close>

definition seeded_files :: files where
  "seeded_files =
     \<lparr>root = Some 0,
      nodes =
        [\<lparr>name = ''/'', path = None, type = Some ''directory'', content = None,
          children = Some 0, createdAt = None\<rparr>,
         \<lparr>name = ''main.js'', path = Some ''/main.js'', type = Some ''file'',
          content = Some (''// Welcome to the collaborative code editor!'' @ nl @
                          ''console.log(\"Hello, World!\");''),
          children = None, createdAt = None\<rparr>,
         \<lparr>name = ''example.py'', path = Some ''/example.py'', type = Some ''file'',
          content = Some (''# Python example'' @ nl @ ''print(\"Hello from Python!\")''),
          children = None, createdAt = None\<rparr>],
      cmaps = [[(''main.js'', 1), (''example.py'', 2)]]\<rparr>"

section \<open>The room registry\<close>

text \<open>
  \<open>rooms\<close> and \<open>roomFiles\<close> are JavaScript \<open>Map\<close>s keyed by room id; \<open>sockets\<close> holds
  the properties \<open>roomId\<close> and \<open>userName\<close> that \<open>join-room\<close> stores on a socket. The
  broadcasts of the socket handlers do not change this state and are left out.
\<close>

record user =
  user_id :: string
  user_name :: string
  joinedAt :: nat

record room =
  room_id :: string
  users :: "user list"
  room_createdAt :: nat

record socket =
  roomId :: "string option"
  userName :: "string option"

record server =
  rooms :: "(string \<times> room) list"
  roomFiles :: "(string \<times> files) list"
  sockets :: "(string \<times> socket) list"

definition socket_of :: "server \<Rightarrow> string \<Rightarrow> socket" where
  "socket_of s sid =
     (case map_of (sockets s) sid of
        None \<Rightarrow> \<lparr>roomId = None, userName = None\<rparr>
      | Some sock \<Rightarrow> sock)"

text \<open>
  \<open>POST /api/rooms/create\<close>: \<open>rid\<close> is \<open>uuidv4().substring(0, 8)\<close> and \<open>now\<close> is
  \<open>new Date()\<close>.
\<close>

definition createRoom :: "string \<Rightarrow> nat \<Rightarrow> server \<Rightarrow> server" where
  "createRoom rid now s =
     s\<lparr>rooms := AList.update rid \<lparr>room_id = rid, users = [], room_createdAt = now\<rparr> (rooms s),
       roomFiles := AList.update rid seeded_files (roomFiles s)\<rparr>"

text \<open>\<open>GET /api/rooms/:roomId\<close>: \<open>{exists: true, room}\<close> or status 404 with \<open>{exists: false}\<close>.\<close>

datatype room_response = RoomFound room | RoomMissing

definition getRoom :: "string \<Rightarrow> server \<Rightarrow> room_response" where
  "getRoom rid s = (case map_of (rooms s) rid of None \<Rightarrow> RoomMissing | Some r \<Rightarrow> RoomFound r)"

definition join_room :: "string \<Rightarrow> string \<Rightarrow> string \<Rightarrow> nat \<Rightarrow> server \<Rightarrow> server" where
  "join_room sid rid uname now s =
     (case map_of (rooms s) rid of
        None \<Rightarrow> s
      | Some r \<Rightarrow>
          s\<lparr>sockets := AList.update sid \<lparr>roomId = Some rid, userName = Some uname\<rparr> (sockets s),
            rooms := AList.update rid
              (r\<lparr>users := users r @ [\<lparr>user_id = sid, user_name = uname, joinedAt = now\<rparr>]\<rparr>)
              (rooms s)\<rparr>)"

text \<open>
  \<open>disconnect\<close>: \<open>if (socket.roomId && rooms.has(socket.roomId))\<close>; the empty string is
  falsy. The socket itself ends with the connection.
\<close>

definition disconnect :: "string \<Rightarrow> server \<Rightarrow> server" where
  "disconnect sid s =
     (let s1 = s\<lparr>sockets := AList.delete sid (sockets s)\<rparr>
      in case roomId (socket_of s sid) of
           None \<Rightarrow> s1
         | Some rid \<Rightarrow>
             if rid = [] then s1
             else (case map_of (rooms s) rid of
                     None \<Rightarrow> s1
                   | Some r \<Rightarrow>
                       (let remaining = filter (\<lambda>u. user_id u \<noteq> sid) (users r)
                        in if length remaining = 0 then
                             s1\<lparr>rooms := AList.delete rid (rooms s),
                                roomFiles := AList.delete rid (roomFiles s)\<rparr>
                           else s1\<lparr>rooms := AList.update rid (r\<lparr>users := remaining\<rparr>) (rooms s)\<rparr>)))"

text \<open>
  The file handlers: \<open>code-change\<close> and \<open>create-file\<close> install \<open>{}\<close> for a room without
  files, \<open>delete-file\<close> and \<open>rename-file\<close> do nothing for such a room.
\<close>

fun installs_files :: "tree_op \<Rightarrow> bool" where
  "installs_files (Create filePath content_opt type_opt now) = True"
| "installs_files (Edit filePath text) = True"
| "installs_files (Delete filePath) = False"
| "installs_files (Rename oldPath newPath) = False"

definition file_event :: "string \<Rightarrow> tree_op \<Rightarrow> server \<Rightarrow> ws_error + server" where
  "file_event rid op s =
     (case map_of (roomFiles s) rid of
        None \<Rightarrow>
          if installs_files op then
            (case apply_op op empty_files of
               Inl e \<Rightarrow> Inl e
             | Inr fs1 \<Rightarrow> Inr (s\<lparr>roomFiles := AList.update rid fs1 (roomFiles s)\<rparr>))
          else Inr s
      | Some fs \<Rightarrow>
          (case apply_op op fs of
             Inl e \<Rightarrow> Inl e
           | Inr fs1 \<Rightarrow> Inr (s\<lparr>roomFiles := AList.update rid fs1 (roomFiles s)\<rparr>)))"

datatype ws_event =
    CreateRoom string nat
  | JoinRoom string string string nat
  | FileEvent string tree_op
  | CursorChange string
  | Disconnect string

fun server_step :: "ws_event \<Rightarrow> server \<Rightarrow> ws_error + server" where
  "server_step (CreateRoom rid now) s = Inr (createRoom rid now s)"
| "server_step (JoinRoom sid rid uname now) s = Inr (join_room sid rid uname now s)"
| "server_step (FileEvent rid op) s = file_event rid op s"
| "server_step (CursorChange sid) s = Inr s"
| "server_step (Disconnect sid) s = Inr (disconnect sid s)"

fun server_run :: "ws_event list \<Rightarrow> server \<Rightarrow> ws_error + server" where
  "server_run [] s = Inr s"
| "server_run (ev # evs) s =
     (case server_step ev s of Inl e \<Rightarrow> Inl e | Inr s1 \<Rightarrow> server_run evs s1)"

fun creates_room :: "string \<Rightarrow> ws_event \<Rightarrow> bool" where
  "creates_room rid (CreateRoom rid' now) = (rid' = rid)"
| "creates_room rid (JoinRoom sid rid' uname now) = False"
| "creates_room rid (FileEvent rid' op) = False"
| "creates_room rid (CursorChange sid) = False"
| "creates_room rid (Disconnect sid) = False"

text \<open>\<open>POST /api/execute\<close> against the registry.\<close>

definition execute_in ::
  "(js_exception \<Rightarrow> string) \<Rightarrow> server \<Rightarrow> nat \<Rightarrow> exec_request \<Rightarrow> exec_state" where
  "execute_in msg s now req = execute msg (map fst (rooms s)) now req"


section \<open>Invariants used in the proofs\<close>

definition scan_inv :: "string \<Rightarrow> nat \<Rightarrow> ext_scan \<Rightarrow> bool" where
  "scan_inv p n st =
     ((\<forall>e. endp st = Some e \<longrightarrow> n \<le> e) \<and>
      (\<forall>sd. startDot st = Some sd \<longrightarrow>
         sd < length p \<and> p ! sd = CHR ''.'' \<and> (\<exists>e. endp st = Some e \<and> sd < e)))"

text \<open>An interpreted request whose single child is running and whose timer is armed.\<close>

definition interp_inv :: "language_config \<Rightarrow> string \<Rightarrow> exec_state \<Rightarrow> bool" where
  "interp_inv config out s =
     (phase s = Interpreting 0 \<and> child s = Some 0 \<and> timer s = Armed \<and> \<not> crashed s \<and>
      response s = None \<and> st_config s = Some config \<and> length (procs s) = 1 \<and>
      output' s = out)"

text \<open>
  The root node is in the store, is named \<open>/\<close>, is a directory and has a child map in
  the store.
\<close>

definition root_ok :: "files \<Rightarrow> bool" where
  "root_ok fs =
     (case root fs of
        None \<Rightarrow> False
      | Some r \<Rightarrow>
          r < length (nodes fs) \<and> name (nodes fs ! r) = ''/'' \<and>
          type (nodes fs ! r) = Some ''directory'' \<and>
          (case children (nodes fs ! r) of None \<Rightarrow> False | Some m \<Rightarrow> m < length (cmaps fs)))"

text \<open>
  The frame of every tree operation: the root pointer stays, the store only grows, and
  a node keeps its name, its type and its child map.
\<close>

definition extends :: "files \<Rightarrow> files \<Rightarrow> bool" where
  "extends fs fs' =
     (root fs' = root fs \<and> length (nodes fs) \<le> length (nodes fs') \<and>
      length (cmaps fs) \<le> length (cmaps fs') \<and>
      (\<forall>a < length (nodes fs).
         name (nodes fs' ! a) = name (nodes fs ! a) \<and>
         type (nodes fs' ! a) = type (nodes fs ! a) \<and>
         children (nodes fs' ! a) = children (nodes fs ! a)))"


section \<open>Properties of the language inference\<close>

lemma ext_step_inv:
  "i < length p \<Longrightarrow> scan_inv p (Suc i) st \<Longrightarrow> scan_inv p i (ext_step p i st)"
  by (auto simp: scan_inv_def ext_step_def Let_def)

lemma startPart_inv: "scan_inv p (Suc i) st \<Longrightarrow> scan_inv p 0 (st\<lparr>startPart := k\<rparr>)"
  by (simp add: scan_inv_def)

lemma scan_inv_mono: "scan_inv p (Suc i) st \<Longrightarrow> scan_inv p i st"
  by (auto simp: scan_inv_def)

lemma extname_scan_inv:
  "i \<le> length p \<Longrightarrow> scan_inv p i st \<Longrightarrow> scan_inv p 0 (extname_scan p i st)"
proof (induction i arbitrary: st)
  case 0
  then show ?case by simp
next
  case (Suc i)
  then have i: "i < length p" "i \<le> length p" by simp_all
  show ?case
    using Suc.IH [OF i(2)] ext_step_inv [OF i(1) Suc.prems(2)] startPart_inv [OF Suc.prems(2)]
      scan_inv_mono [OF Suc.prems(2)]
    by simp
qed

lemma extname_dot: "extname p = [] \<or> hd (extname p) = CHR ''.''"
proof -
  have inv: "scan_inv p 0 (extname_scan p (length p) ext_scan_init)"
    by (rule extname_scan_inv) (simp_all add: scan_inv_def ext_scan_init_def)
  show ?thesis
    using inv
    by (auto simp: extname_def Let_def scan_inv_def hd_drop_conv_nth split: option.splits)
qed

lemma toLowerCase_dot: "s = [] \<or> hd s = CHR ''.'' \<Longrightarrow> toLowerCase s = [] \<or> hd (toLowerCase s) = CHR ''.''"
  by (cases s) (auto simp: toLowerCase_def toLowerCase_char_def)

lemma dot_not_prototype_key: "s = [] \<or> hd s = CHR ''.'' \<Longrightarrow> s \<notin> set object_prototype_keys"
  by (auto simp: object_prototype_keys_def)

lemma languageMap_range: "map_of languageMap e = Some l \<Longrightarrow> l \<in> fst ` set languageConfigs"
  by (drule map_of_SomeD) (auto simp: languageMap_def languageConfigs_def)

lemma javascript_in_catalog: "''javascript'' \<in> fst ` set languageConfigs"
  by (simp add: languageConfigs_def)

lemma getLanguageFromExtension_catalog:
  "\<exists>l. getLanguageFromExtension f = LStr l \<and> l \<in> fst ` set languageConfigs"
proof -
  let ?ext = "toLowerCase (extname f)"
  have "?ext \<notin> set object_prototype_keys"
    using extname_dot [of f] toLowerCase_dot dot_not_prototype_key by blast
  then show ?thesis
    using languageMap_range [of ?ext] javascript_in_catalog
    by (cases "map_of languageMap ?ext") (simp_all add: getLanguageFromExtension_def js_get_def Let_def)
qed

lemma catalog_lookup_own:
  "l \<in> fst ` set languageConfigs \<Longrightarrow> \<exists>config. lookup_config (LStr l) = Own config"
proof -
  assume "l \<in> fst ` set languageConfigs"
  then obtain config where "map_of languageConfigs l = Some config"
    by (metis domD dom_map_of_conv_image_fst)
  then show ?thesis by (simp add: lookup_config_def js_get_def)
qed




section \<open>Claims about the execution orchestrator\<close>



subsection \<open>The response sent by the synchronous part of the handler\<close>

lemma response_respond: "response s = None \<Longrightarrow> response (respond r s) = Some r"
  by (simp add: respond_def)

lemma response_catch_error:
  "response s = None \<Longrightarrow>
   response (catch_error msg e s) =
     Some (Json \<lparr>r_output = ''Execution error: '' @ msg e, r_exitCode = None,
                  r_error = True, r_language = Some (detected s)\<rparr>)"
  by (simp add: catch_error_def respond_def)

lemma response_spawn [simp]: "response (spawn cmd as s) = response s"
  by (simp add: spawn_def)

lemma response_writeFileSync [simp]: "response (writeFileSync p d s) = response s"
  by (simp add: writeFileSync_def)

lemma detected_writeFileSync [simp]: "detected (writeFileSync p d s) = detected s"
  by (simp add: writeFileSync_def)

lemma procs_writeFileSync [simp]: "procs (writeFileSync p d s) = procs s"
  by (simp add: writeFileSync_def)

lemma executeCompiledLanguage_Inl:
  "executeCompiledLanguage l c f now config s = Inl (e, s2) \<Longrightarrow>
   compileCommand config = None \<and> e = InvalidSpawnFile \<and> response s2 = response s \<and>
   detected s2 = detected s \<and> procs s2 = procs s"
  by (auto simp: executeCompiledLanguage_def Let_def split: option.splits if_splits)

lemma executeCompiledLanguage_Inr:
  "executeCompiledLanguage l c f now config s = Inr s2 \<Longrightarrow>
   compileCommand config \<noteq> None \<and> response s2 = response s \<and>
   phase s2 = Compiling (length (procs s)) \<and> length (procs s2) = Suc (length (procs s))"
  by (auto simp: executeCompiledLanguage_def Let_def spawn_def split: option.splits if_splits)

text \<open>The response that the synchronous part of the handler has sent, by case.\<close>

lemma response_execute:
  "response (execute msg rs now req) =
     (if req_roomId req \<notin> set rs then Some RoomNotFound
      else case lookup_config (detectedLanguage req) of
             Absent \<Rightarrow> Some (Json (unsupported_result (detectedLanguage req)))
           | Inherited k \<Rightarrow>
               Some (Json \<lparr>r_output = ''Execution error: '' @ msg NotIterable,
                       r_exitCode = None, r_error = True,
                       r_language = Some (detectedLanguage req)\<rparr>)
           | Own config \<Rightarrow>
               if compile config \<and> compileCommand config = None
               then Some (Json \<lparr>r_output = ''Execution error: '' @
                                    msg InvalidSpawnFile,
                       r_exitCode = None, r_error = True,
                       r_language = Some (detectedLanguage req)\<rparr>)
               else if \<not> compile config \<and> detectedLanguage req \<noteq> LStr ''go'' \<and>
                       has_nul (req_code req)
               then Some (Json \<lparr>r_output = ''Execution error: '' @
                                    msg InvalidSpawnArg,
                       r_exitCode = None, r_error = True,
                       r_language = Some (detectedLanguage req)\<rparr>)
               else None)"
proof (cases "req_roomId req \<in> set rs")
  case False
  then show ?thesis by (simp add: execute_def Let_def respond_def exec_init_def)
next
  case room: True
  show ?thesis
  proof (cases "lookup_config (detectedLanguage req)")
    case Absent
    with room show ?thesis by (simp add: execute_def Let_def respond_def exec_init_def)
  next
    case (Inherited k)
    with room show ?thesis
      by (simp add: execute_def Let_def catch_error_def respond_def exec_init_def)
  next
    case (Own config)
    let ?s1 = "(exec_init (req_roomId req) (detectedLanguage req))
                 \<lparr>timer := Armed, st_config := Some config\<rparr>"
    have s1: "response ?s1 = None" "detected ?s1 = detectedLanguage req"
      by (simp_all add: exec_init_def)
    show ?thesis
    proof (cases "compile config")
      case False
      with room Own show ?thesis
        by (simp add: execute_def Let_def exec_init_def catch_error_def respond_def)
    next
      case True
      show ?thesis
      proof (cases "executeCompiledLanguage (lang_to_string (detectedLanguage req))
                      (req_code req) (req_filename req) now config ?s1")
        case (Inl p)
        obtain e s2 where p: "p = (e, s2)" by (cases p)
        from executeCompiledLanguage_Inl [OF Inl [unfolded p]] s1
        have "compileCommand config = None" "e = InvalidSpawnFile" "response s2 = None"
          "detected s2 = detectedLanguage req" by simp_all
        with room Own True Inl p show ?thesis
          by (simp add: execute_def Let_def response_catch_error)
      next
        case (Inr s2)
        from executeCompiledLanguage_Inr [OF Inr] s1
        have "compileCommand config \<noteq> None" "response s2 = None" by simp_all
        with room Own True Inr show ?thesis
          by (simp add: execute_def Let_def)
      qed
    qed
  qed
qed

lemma unsupported_result_language:
  "\<lparr>r_output = x, r_exitCode = y, r_error = z, r_language = Some w\<rparr> \<noteq> unsupported_result dl"
  by (simp add: unsupported_result_def)

lemma filename_truthy_catalog:
  assumes "filename_truthy req"
  shows "\<exists>l config. detectedLanguage req = LStr l \<and> map_of languageConfigs l = Some config \<and>
           lookup_config (detectedLanguage req) = Own config"
proof -
  from assms obtain f where f: "req_filename req = Some f" "f \<noteq> []"
    by (auto simp: filename_truthy_def split: option.splits)
  then have d: "detectedLanguage req = getLanguageFromExtension f"
    by (simp add: detectedLanguage_def)
  from getLanguageFromExtension_catalog [of f] obtain l
    where l: "getLanguageFromExtension f = LStr l" "l \<in> fst ` set languageConfigs" by blast
  from catalog_lookup_own [OF l(2)] obtain config where "lookup_config (LStr l) = Own config" ..
  then show ?thesis using d l(1)
    by (auto simp: lookup_config_def js_get_def split: option.splits if_splits)
qed

text \<open>
  Claim C10. Extension inference answers \<open>javascript\<close> for every filename whose
  lower-cased extension is not a key of the extension map. Hence a request with a
  (truthy) filename always resolves to an entry of the language catalog, and the
  "unsupported language" result is sent only for a request without a filename whose
  explicit language id, if any, is not in the catalog.
\<close>

theorem unknown_extension_defaults_to_javascript:
  "(map_of languageMap (toLowerCase (extname f)) = None \<longrightarrow>
      getLanguageFromExtension f = LStr ''javascript'') \<and>
   (filename_truthy req \<longrightarrow>
      (\<exists>l config. detectedLanguage req = LStr l \<and> map_of languageConfigs l = Some config \<and>
         lookup_config (detectedLanguage req) = Own config)) \<and>
   ((\<exists>dl. response (execute msg rs now req) = Some (Json (unsupported_result dl))) \<longrightarrow>
      \<not> filename_truthy req \<and>
      (\<forall>l. req_language req = Some l \<longrightarrow> l \<notin> fst ` set languageConfigs))"
proof (intro conjI impI)
  assume none: "map_of languageMap (toLowerCase (extname f)) = None"
  from getLanguageFromExtension_catalog [of f] obtain l
    where "getLanguageFromExtension f = LStr l" by blast
  with none show "getLanguageFromExtension f = LStr ''javascript''"
    by (simp add: getLanguageFromExtension_def js_get_def Let_def split: if_splits)
next
  assume "filename_truthy req"
  then show "\<exists>l config. detectedLanguage req = LStr l \<and> map_of languageConfigs l = Some config \<and>
           lookup_config (detectedLanguage req) = Own config"
    by (rule filename_truthy_catalog)
next
  assume "\<exists>dl. response (execute msg rs now req) = Some (Json (unsupported_result dl))"
  then obtain dl where u: "response (execute msg rs now req) = Some (Json (unsupported_result dl))" ..
  have absent: "lookup_config (detectedLanguage req) = Absent"
  proof (cases "lookup_config (detectedLanguage req)")
    case Absent
    then show ?thesis .
  next
    case (Inherited k)
    with u show ?thesis
      by (auto simp: response_execute unsupported_result_language split: if_splits)
  next
    case (Own config)
    with u show ?thesis
      by (auto simp: response_execute unsupported_result_language split: if_splits)
  qed
  have nf: "\<not> filename_truthy req"
    using filename_truthy_catalog [of req] absent by auto
  have "l \<notin> fst ` set languageConfigs" if l: "req_language req = Some l" for l
  proof
    assume "l \<in> fst ` set languageConfigs"
    from catalog_lookup_own [OF this] obtain config where "lookup_config (LStr l) = Own config" ..
    moreover have "detectedLanguage req = LStr l"
      using nf l by (auto simp: detectedLanguage_def filename_truthy_def split: option.splits)
    ultimately show False using absent by simp
  qed
  with nf show "\<not> filename_truthy req"
    and "\<forall>l. req_language req = Some l \<longrightarrow> l \<notin> fst ` set languageConfigs" by blast+
qed

theorem unknown_extension_defaults_to_javascript_witness:
  "getLanguageFromExtension ''notes.txt'' = LStr ''javascript'' \<and>
   lookup_config (detectedLanguage \<lparr>req_code = ''x'', req_language = Some ''cobol'', req_roomId = ''r'',
      req_filename = Some ''notes.txt''\<rparr>) \<noteq> Absent \<and>
   response (execute (\<lambda>e. []) [''r''] 7 \<lparr>req_code = ''x'', req_language = Some ''cobol'', req_roomId = ''r'',
      req_filename = None\<rparr>) = Some (Json (unsupported_result (LStr ''cobol''))) \<and>
   ''cobol'' \<notin> fst ` set languageConfigs"
proof -
  let ?r1 = "\<lparr>req_code = ''x'', req_language = Some ''cobol'', req_roomId = ''r'',
      req_filename = Some ''notes.txt''\<rparr>"
  let ?r2 = "\<lparr>req_code = ''x'', req_language = Some ''cobol'', req_roomId = ''r'',
      req_filename = None\<rparr>"
  have a: "map_of languageMap (toLowerCase (extname ''notes.txt'')) = None"
    by code_simp
  have b: "filename_truthy ?r1"
    by (simp add: filename_truthy_def)
  have c: "response (execute (\<lambda>e. []) [''r''] 7 ?r2) = Some (Json (unsupported_result (LStr ''cobol'')))"
    by (simp add: execute_def detectedLanguage_def lookup_config_def js_get_def
        languageConfigs_def object_prototype_keys_def respond_def exec_init_def Let_def)
  show ?thesis
    using unknown_extension_defaults_to_javascript
        [where f = "''notes.txt''" and req = ?r1 and msg = "\<lambda>e. []" and rs = "[''r'']" and now = 7] a b
      unknown_extension_defaults_to_javascript
        [where f = "''notes.txt''" and req = ?r2 and msg = "\<lambda>e. []" and rs = "[''r'']" and now = 7] c
    by auto
qed

text \<open>
  What holds of the unsupported-language branch: when the room exists and the resolved
  language id is neither a key of the catalog nor the name of a member of
  \<open>Object.prototype\<close>, the handler answers with the "unsupported language" result at
  once; it starts no process and no timer.
\<close>

lemma unsupported_language_reported:
  assumes "req_roomId req \<in> set rs"
    and "lang_to_string (detectedLanguage req) \<notin> fst ` set languageConfigs"
    and "lang_to_string (detectedLanguage req) \<notin> set object_prototype_keys"
  shows "response (execute msg rs now req) = Some (Json (unsupported_result (detectedLanguage req))) \<and>
         procs (execute msg rs now req) = [] \<and> timer (execute msg rs now req) = Unset"
proof -
  have "map_of languageConfigs (lang_to_string (detectedLanguage req)) = None"
    using assms(2) by (simp add: map_of_eq_None_iff)
  then have "lookup_config (detectedLanguage req) = Absent"
    using assms(3) by (simp add: lookup_config_def js_get_def)
  then show ?thesis
    using assms(1) by (simp add: execute_def Let_def respond_def exec_init_def)
qed

text \<open>
  Claim C5 says this of every language id without an entry in the catalog. The lookup
  \<open>languageConfigs[detectedLanguage]\<close> also finds the members that the catalog object
  inherits, so the guard \<open>if (!config)\<close> lets the id \<open>constructor\<close> through: the handler
  goes on, the spread of the missing \<open>config.args\<close> throws, and the request is answered
  from the \<open>catch\<close> block with an execution error instead of the "unsupported language"
  result.
\<close>

theorem inherited_config_not_reported_unsupported:
  "''constructor'' \<notin> fst ` set languageConfigs \<and>
   response (execute msg [''r''] 7 \<lparr>req_code = ''1'', req_language = Some ''constructor'',
       req_roomId = ''r'', req_filename = None\<rparr>) =
     Some (Json \<lparr>r_output = ''Execution error: '' @ msg NotIterable, r_exitCode = None,
                  r_error = True, r_language = Some (LStr ''constructor'')\<rparr>) \<and>
   response (execute msg [''r''] 7 \<lparr>req_code = ''1'', req_language = Some ''constructor'',
       req_roomId = ''r'', req_filename = None\<rparr>) \<noteq>
     Some (Json (unsupported_result (LStr ''constructor'')))"
  by (simp add: execute_def detectedLanguage_def lookup_config_def js_get_def
      languageConfigs_def object_prototype_keys_def respond_def catch_error_def exec_init_def
      unsupported_result_def Let_def)

subsection \<open>Evaluation rules and the finished state\<close>

lemmas exec_eval =
  execute_def detectedLanguage_def lookup_config_def js_get_def languageConfigs_def
  object_prototype_keys_def respond_def catch_error_def exec_init_def unsupported_result_def
  executeCompiledLanguage_def spawn_def has_nul_def writeFileSync_def set_status_def kill_def
  timer_expired_def timeout_notice_def interp_closed_def compile_closed_def run_closed_def
  compiled_callback_def cleanup_def unlink_if_exists_def on_event_def on_stdout_def
  on_stderr_def on_close_def show_nat.simps digit_char_def Let_def

lemma run_events_append: "run_events (evs @ evs') s = run_events evs' (run_events evs s)"
  by (induction evs arbitrary: s) simp_all




text \<open>
  A Java request whose compiler succeeds: the source is rewritten around the declared
  class name, and the run phase starts \<open>java\<close> on that class.
\<close>

lemma java_run_uses_declared_class:
  "disk (run_events [Close 0 (Exited 0)]
      (execute msg [''r''] 42 \<lparr>req_code = ''import x; public   class  Foo { }'',
         req_language = None, req_roomId = ''r'', req_filename = Some ''Foo.JAVA''\<rparr>)) =
     [(''/tmp/TempClass42.java'', ''import x; public class Foo { }'')] \<and>
   procs (run_events [Close 0 (Exited 0)]
      (execute msg [''r''] 42 \<lparr>req_code = ''import x; public   class  Foo { }'',
         req_language = None, req_roomId = ''r'', req_filename = Some ''Foo.JAVA''\<rparr>)) =
     [\<lparr>p_command = ''javac'', p_args = [''/tmp/TempClass42.java''], p_status = Closed\<rparr>,
      \<lparr>p_command = ''java'', p_args = [''-cp'', ''/tmp'', ''Foo''], p_status = Running\<rparr>]"
proof -
  have g: "getLanguageFromExtension ''Foo.JAVA'' = LStr ''java''"
    by code_simp
  show ?thesis
    by (simp add: exec_eval g java_source_def class_match_here_def is_space_def is_word_def)
qed



subsection \<open>A compile-mode request up to the exit of its compiler\<close>








text \<open>
  What holds of the timeout for an interpreted request whose child has been started:
  as long as the child has only written output, the expiry of the timer answers the request with the captured standard
  output followed by the timeout notice, error flag true, and the child has been
  signalled, so that no process of the request is left running.
\<close>

lemma interp_inv_start:
  assumes "req_roomId req \<in> set rs" "lookup_config (detectedLanguage req) = Own config"
    "\<not> compile config" "has_nul (req_code req) \<longrightarrow> detectedLanguage req = LStr ''go''"
  shows "interp_inv config [] (execute msg rs now req)"
  using assms
  by (simp add: execute_def Let_def interp_inv_def exec_init_def spawn_def writeFileSync_def)

lemma interp_inv_step:
  assumes "interp_inv config out s" "output_only ev"
  shows "interp_inv config (out @ stdout_data 0 [ev]) (on_event ev s)"
  using assms
  by (cases ev)
    (simp_all add: interp_inv_def on_event_def on_stdout_def on_stderr_def writeFileSync_def)

lemma stdout_data_Cons: "stdout_data pid (ev # evs) = stdout_data pid [ev] @ stdout_data pid evs"
  by (cases ev) simp_all

lemma interp_inv_run:
  "interp_inv config out s \<Longrightarrow> \<forall>ev \<in> set evs. output_only ev \<Longrightarrow>
   interp_inv config (out @ stdout_data 0 evs) (run_events evs s)"
proof (induction evs arbitrary: out s)
  case Nil
  then show ?case by simp
next
  case (Cons ev evs)
  from Cons.prems have "interp_inv config (out @ stdout_data 0 [ev]) (on_event ev s)"
    by (simp add: interp_inv_step)
  from Cons.IH [OF this] Cons.prems(2) show ?case
    by (simp add: stdout_data_Cons [of 0 ev evs])
qed

lemma interp_inv_timeout:
  assumes "interp_inv config out s"
  shows "response (on_event TimerFire s) =
           Some (Json \<lparr>r_output = out @ timeout_notice config, r_exitCode = None,
                        r_error = True, r_language = None\<rparr>) \<and>
         (\<forall>p \<in> set (procs (on_event TimerFire s)). p_status p \<noteq> Running)"
proof -
  from assms obtain p where p: "procs s = [p]"
    by (cases "procs s") (auto simp: interp_inv_def)
  with assms show ?thesis
    by (simp add: interp_inv_def on_event_def timer_expired_def kill_def set_status_def
        respond_def)
qed

lemma interpreted_timeout_kills_child:
  assumes "req_roomId req \<in> set rs" "lookup_config (detectedLanguage req) = Own config"
    "\<not> compile config" "has_nul (req_code req) \<longrightarrow> detectedLanguage req = LStr ''go''"
    "\<forall>ev \<in> set evs. output_only ev"
  shows "response (run_events (evs @ [TimerFire]) (execute msg rs now req)) =
           Some (Json \<lparr>r_output = stdout_data 0 evs @ timeout_notice config, r_exitCode = None,
                        r_error = True, r_language = None\<rparr>) \<and>
         (\<forall>p \<in> set (procs (run_events (evs @ [TimerFire]) (execute msg rs now req))).
            p_status p \<noteq> Running)"
proof -
  from interp_inv_run [OF interp_inv_start [OF assms(1-4)] assms(5)]
  have "interp_inv config (stdout_data 0 evs) (run_events evs (execute msg rs now req))"
    by simp
  from interp_inv_timeout [OF this] show ?thesis
    by (simp add: run_events_append)
qed

text \<open>
  Claim C1 says the same of compiled languages. There the handler's variable \<open>child\<close> is
  never assigned (the compiler and the program are local to
  \<open>executeCompiledLanguage\<close>), and their output is collected in other variables than
  \<open>output\<close>. When the timer expires during the compilation of a C++ source, the compiler
  keeps running; when it expires during the run phase, the program keeps running and
  the output it has written is missing from the answer.
\<close>

theorem compiled_timeout_leaves_child_running:
  "response (run_events [TimerFire]
      (execute msg [''r''] 42 \<lparr>req_code = ''int main(){for(;;);}'', req_language = Some ''cpp'',
         req_roomId = ''r'', req_filename = None\<rparr>)) =
     Some (Json \<lparr>r_output = nl @ ''[Execution timed out after 15 seconds]'', r_exitCode = None,
                  r_error = True, r_language = None\<rparr>) \<and>
   map p_status (procs (run_events [TimerFire]
      (execute msg [''r''] 42 \<lparr>req_code = ''int main(){for(;;);}'', req_language = Some ''cpp'',
         req_roomId = ''r'', req_filename = None\<rparr>))) = [Running] \<and>
   response (run_events [Close 0 (Exited 0), Stdout 1 ''tick'', TimerFire]
      (execute msg [''r''] 42 \<lparr>req_code = ''int main(){for(;;);}'', req_language = Some ''cpp'',
         req_roomId = ''r'', req_filename = None\<rparr>)) =
     Some (Json \<lparr>r_output = nl @ ''[Execution timed out after 15 seconds]'', r_exitCode = None,
                  r_error = True, r_language = None\<rparr>) \<and>
   map p_status (procs (run_events [Close 0 (Exited 0), Stdout 1 ''tick'', TimerFire]
      (execute msg [''r''] 42 \<lparr>req_code = ''int main(){for(;;);}'', req_language = Some ''cpp'',
         req_roomId = ''r'', req_filename = None\<rparr>))) = [Closed, Running]"
  by (simp add: exec_eval)

text \<open>
  What the cleanup block of the run-phase exit handler achieves: the source file, the
  executable and, for Java, the class file named after the source file are gone.
\<close>

lemma delete_absent: "map_of (AList.delete k al) k = None"
  by (simp add: AList.delete_eq map_of_eq_None_iff image_iff)

lemma map_of_delete_absent: "map_of al k = None \<Longrightarrow> map_of (AList.delete k' al) k = None"
  by (cases "k = k'") (simp_all add: delete_absent AList.delete_eq map_of_eq_None_iff image_iff)

lemma cleanup_removes_artifacts:
  "(sourceFile s = Some src \<longrightarrow> map_of (disk (cleanup s)) src = None) \<and>
   (executableFile s = Some exe \<longrightarrow> map_of (disk (cleanup s)) exe = None) \<and>
   (c_language s = ''java'' \<longrightarrow> sourceFile s = Some src \<longrightarrow>
      map_of (disk (cleanup s)) (replace_first ''.java'' ''.class'' src) = None)"
  by (auto simp: cleanup_def unlink_if_exists_def Let_def delete_absent map_of_delete_absent
      split: option.splits)

text \<open>
  Claim C2 asks for this on every outcome. The cleanup block is reached only when the
  run phase exits: the compile-failure branch returns before it, and the Go branch of
  the handler writes \<open>temp_<now>.go\<close> and never removes it. After a failed compilation
  of a C source the source file is still on disk, and after a Go program has run to
  completion its temporary file is still on disk.
\<close>

theorem failed_compile_and_go_leave_files:
  "response (run_events [Stderr 0 ''error'', Close 0 (Exited 1)]
      (execute msg [''r''] 42 \<lparr>req_code = ''int main( {'', req_language = Some ''c'',
         req_roomId = ''r'', req_filename = None\<rparr>)) =
     Some (Json \<lparr>r_output = ''Compilation failed:'' @ nl @ ''error'',
                  r_exitCode = Some (Exited 1), r_error = True, r_language = None\<rparr>) \<and>
   phase (run_events [Stderr 0 ''error'', Close 0 (Exited 1)]
      (execute msg [''r''] 42 \<lparr>req_code = ''int main( {'', req_language = Some ''c'',
         req_roomId = ''r'', req_filename = None\<rparr>)) = Finished \<and>
   disk (run_events [Stderr 0 ''error'', Close 0 (Exited 1)]
      (execute msg [''r''] 42 \<lparr>req_code = ''int main( {'', req_language = Some ''c'',
         req_roomId = ''r'', req_filename = None\<rparr>)) = [(''/tmp/temp42.c'', ''int main( {'')] \<and>
   response (run_events [Stdout 0 ''hi'', Close 0 (Exited 0)]
      (execute msg [''r''] 42 \<lparr>req_code = ''package main'', req_language = Some ''go'',
         req_roomId = ''r'', req_filename = None\<rparr>)) =
     Some (Json \<lparr>r_output = ''hi'', r_exitCode = Some (Exited 0), r_error = False,
                  r_language = Some (LStr ''go'')\<rparr>) \<and>
   phase (run_events [Stdout 0 ''hi'', Close 0 (Exited 0)]
      (execute msg [''r''] 42 \<lparr>req_code = ''package main'', req_language = Some ''go'',
         req_roomId = ''r'', req_filename = None\<rparr>)) = Finished \<and>
   disk (run_events [Stdout 0 ''hi'', Close 0 (Exited 0)]
      (execute msg [''r''] 42 \<lparr>req_code = ''package main'', req_language = Some ''go'',
         req_roomId = ''r'', req_filename = None\<rparr>)) = [(''temp_42.go'', ''package main'')]"
  by (simp add: exec_eval)

section \<open>Claims about the shared workspace\<close>

subsection \<open>The frame of the tree operations\<close>

lemma extends_refl: "extends fs fs"
  by (simp add: extends_def)

lemma extends_trans: "extends a b \<Longrightarrow> extends b c \<Longrightarrow> extends a c"
  by (auto simp: extends_def)

lemma extends_set_child: "extends fs (set_child m k a fs)"
  by (simp add: extends_def set_child_def)

lemma extends_delete_child: "extends fs (delete_child m k fs)"
  by (simp add: extends_def delete_child_def)

lemma extends_alloc_node: "extends fs (alloc_node n fs)"
  by (simp add: extends_def alloc_node_def nth_append)

lemma extends_alloc_cmap: "extends fs (alloc_cmap fs)"
  by (simp add: extends_def alloc_cmap_def)

lemma extends_add_directory: "extends fs (add_directory m part fs)"
  unfolding add_directory_def
  by (rule extends_trans [OF extends_alloc_cmap extends_trans [OF extends_alloc_node extends_set_child]])

lemma extends_set_walk:
  "set_walk fs current parts = Inr (fs', v) \<Longrightarrow> extends fs fs'"
proof (induction parts arbitrary: fs current)
  case Nil
  then show ?case by (simp add: extends_refl)
next
  case (Cons part parts)
  from Cons.prems obtain m where m: "children_of fs current = Inr (Some m)"
    by (auto split: sum.splits option.splits)
  let ?fs1 = "if \<not> truthy (get_child fs m part) then add_directory m part fs else fs"
  from Cons.prems m have "set_walk ?fs1 (get_child ?fs1 m part) parts = Inr (fs', v)"
    by (simp add: Let_def)
  from Cons.IH [OF this] have "extends ?fs1 fs'" .
  moreover have "extends fs ?fs1"
    by (simp add: extends_refl extends_add_directory)
  ultimately show ?case by (rule extends_trans [rotated])
qed

lemma extends_setFileAtPath: "setFileAtPath fs p a = Inr fs' \<Longrightarrow> extends fs fs'"
  by (auto simp: setFileAtPath_def Let_def split: sum.splits option.splits if_splits prod.splits
      intro: extends_trans [OF extends_set_walk extends_set_child])

lemma extends_deleteFileAtPath: "deleteFileAtPath fs p = Inr (b, fs') \<Longrightarrow> extends fs fs'"
  by (auto simp: deleteFileAtPath_def Let_def extends_refl extends_delete_child
      split: sum.splits option.splits if_splits)

lemma extends_code_change: "extends fs (code_change p text fs)"
  by (auto simp: code_change_def extends_def nth_list_update split: jsval.splits)

lemma extends_create_file: "create_file p c t now fs = Inr fs' \<Longrightarrow> extends fs fs'"
  unfolding create_file_def Let_def
  by (auto dest!: extends_setFileAtPath split: if_splits
      intro: extends_trans [OF extends_alloc_node] extends_trans [OF extends_alloc_cmap extends_trans [OF extends_alloc_node]])

lemma extends_rename_file: "rename_file old new fs = Inr fs' \<Longrightarrow> extends fs fs'"
  unfolding rename_file_def Let_def
  by (auto dest!: extends_setFileAtPath extends_deleteFileAtPath simp: extends_refl
      split: if_splits sum.splits prod.splits
      intro: extends_trans [OF _ extends_trans [OF extends_alloc_node]])

lemma extends_apply_op: "apply_op op fs = Inr fs' \<Longrightarrow> extends fs fs'"
  by (cases op)
    (auto simp: delete_file_def extends_code_change
      dest: extends_create_file extends_rename_file extends_deleteFileAtPath
      split: sum.splits prod.splits)

lemma extends_apply_ops: "apply_ops ops fs = Inr fs' \<Longrightarrow> extends fs fs'"
proof (induction ops arbitrary: fs)
  case Nil
  then show ?case by (simp add: extends_refl)
next
  case (Cons op ops)
  from Cons.prems obtain fs1 where s: "apply_op op fs = Inr fs1" "apply_ops ops fs1 = Inr fs'"
    by (auto split: sum.splits)
  from extends_apply_op [OF s(1)] Cons.IH [OF s(2)] show ?case by (rule extends_trans)
qed

lemma root_ok_extends: "root_ok fs \<Longrightarrow> extends fs fs' \<Longrightarrow> root_ok fs'"
  by (auto simp: root_ok_def extends_def split: option.splits)

lemma root_ok_seeded: "root_ok seeded_files"
  by (simp add: root_ok_def seeded_files_def)

lemma path_parts_root: "path_parts ''/'' = []"
  by (simp add: path_parts_def)

text \<open>
  The part of claim C6 that holds: from a tree whose root is a directory, every sequence
  of create, edit, delete and rename operations that the server survives leaves the
  root pointer where it was and the root node a directory named \<open>/\<close>; \<open>/\<close> resolves to
  it. Deleting \<open>/\<close> answers false and changes nothing as long as the root has no entry
  named \<open>undefined\<close>.
\<close>

lemma root_stays_a_directory:
  assumes "root_ok fs" "apply_ops ops fs = Inr fs'"
  shows "root_ok fs' \<and> root fs' = root fs \<and> getFileFromPath fs' ''/'' = root_val fs"
proof -
  from extends_apply_ops [OF assms(2)] have e: "extends fs fs'" .
  then have "root fs' = root fs" by (simp add: extends_def)
  with root_ok_extends [OF assms(1) e] show ?thesis
    by (simp add: getFileFromPath_def path_parts_root root_val_def)
qed

lemma delete_root_without_undefined:
  assumes "root fs = Some r" "r < length (nodes fs)" "children (nodes fs ! r) = Some m"
    "m < length (cmaps fs)" "map_of (cmaps fs ! m) ''undefined'' = None"
  shows "deleteFileAtPath fs ''/'' = Inr (False, fs)"
  using assms
  by (simp add: deleteFileAtPath_def path_parts_root root_val_def popped_key_def get_child_def
      js_get_def object_prototype_keys_def)

lemmas tree_eval =
  create_file_def rename_file_def delete_file_def
  code_change_def setFileAtPath_def deleteFileAtPath_def getFileFromPath_def path_parts_def
  popped_key_def root_val_def get_child_def js_get_def object_prototype_keys_def
  set_child_def delete_child_def alloc_node_def alloc_cmap_def add_directory_def
  seeded_files_def AList.delete_eq Let_def

text \<open>
  Claim C6 says that deleting \<open>/\<close> answers false and leaves the tree unchanged after
  every sequence of operations. For the path \<open>/\<close> the list of segments is empty,
  \<open>parts.pop()\<close> is \<open>undefined\<close>, and \<open>current.children[undefined]\<close> reads the entry named
  \<open>undefined\<close> of the root. After a file \<open>/undefined\<close> has been created, deleting \<open>/\<close>
  answers true and removes that file.
\<close>

theorem delete_root_removes_entry_named_undefined:
  "(case apply_ops [Create ''/undefined'' (Some ''x'') (Some ''file'') 5] seeded_files of
      Inl e \<Rightarrow> False
    | Inr fs \<Rightarrow>
        getFileFromPath fs ''/undefined'' = NodeRef 3 \<and>
        (case deleteFileAtPath fs ''/'' of
           Inl e \<Rightarrow> False
         | Inr (removed, fs') \<Rightarrow>
             removed \<and> fs' \<noteq> fs \<and> getFileFromPath fs' ''/undefined'' = Null))"
  by (simp add: tree_eval)

subsection \<open>Deleting a path that does not resolve\<close>

text \<open>
  The walk of \<open>deleteFileAtPath\<close> agrees with the walk of \<open>getFileFromPath\<close>: when the
  latter answers \<open>null\<close> for a path, deleting the path answers false and leaves the store
  as it is.
\<close>

lemma get_walk_falsy: "\<not> truthy cur \<Longrightarrow> get_walk fs cur (ps @ [k]) = Null"
  by (cases ps) simp_all

lemma get_walk_snoc:
  "get_walk fs cur (ps @ [k]) =
     (if truthy (get_walk fs cur ps) then
        (case children_of fs (get_walk fs cur ps) of
           Inr (Some m) \<Rightarrow> if truthy (get_child fs m k) then get_child fs m k else Null
         | _ \<Rightarrow> Null)
      else Null)"
proof (induction ps arbitrary: cur)
  case Nil
  then show ?case by (simp split: sum.splits option.splits)
next
  case (Cons part ps)
  show ?case
  proof (cases "truthy cur")
    case False
    then show ?thesis by simp
  next
    case True
    show ?thesis
    proof (cases "children_of fs cur")
      case (Inl e)
      with True show ?thesis by simp
    next
      case (Inr c)
      show ?thesis
      proof (cases c)
        case None
        with True Inr show ?thesis by simp
      next
        case (Some m)
        with True Inr Cons.IH [of "get_child fs m part"] show ?thesis by simp
      qed
    qed
  qed
qed

lemma children_of_truthy: "truthy v \<Longrightarrow> \<exists>c. children_of fs v = Inr c"
  by (cases v) simp_all

lemma del_walk_get_walk:
  "truthy cur \<Longrightarrow>
   del_walk fs cur ps =
     (if get_walk fs cur ps = Null then Inr None else Inr (Some (get_walk fs cur ps))) \<and>
   (get_walk fs cur ps = Null \<or> truthy (get_walk fs cur ps))"
proof (induction ps arbitrary: cur)
  case Nil
  then show ?case by (cases cur) simp_all
next
  case (Cons part ps)
  from children_of_truthy [OF Cons.prems] obtain c where c: "children_of fs cur = Inr c" ..
  show ?case
  proof (cases c)
    case None
    with c Cons.prems show ?thesis by simp
  next
    case (Some m)
    show ?thesis
    proof (cases "truthy (get_child fs m part)")
      case True
      from Cons.IH [OF True] c Some True Cons.prems show ?thesis by simp
    next
      case False
      with c Some Cons.prems show ?thesis by simp
    qed
  qed
qed

lemma delete_unresolved_is_noop:
  assumes "root fs \<noteq> None" "getFileFromPath fs p = Null"
  shows "deleteFileAtPath fs p = Inr (False, fs)"
proof -
  let ?parts = "path_parts p"
  from assms(1) have tr: "truthy (root_val fs)"
    by (auto simp: root_val_def)
  have ne: "?parts \<noteq> []"
  proof
    assume "?parts = []"
    with assms(2) tr show False by (simp add: getFileFromPath_def)
  qed
  then have sn: "?parts = butlast ?parts @ [last ?parts]" by simp
  let ?v = "get_walk fs (root_val fs) (butlast ?parts)"
  from assms(2) have g: "get_walk fs (root_val fs) (butlast ?parts @ [last ?parts]) = Null"
    using sn by (simp add: getFileFromPath_def)
  note d = del_walk_get_walk [OF tr, of fs "butlast ?parts"]
  show ?thesis
  proof (cases "?v = Null")
    case True
    with d show ?thesis by (simp add: deleteFileAtPath_def Let_def)
  next
    case False
    with d have tv: "truthy ?v" and dw: "del_walk fs (root_val fs) (butlast ?parts) = Inr (Some ?v)"
      by simp_all
    from children_of_truthy [OF tv] obtain c where c: "children_of fs ?v = Inr c" ..
    show ?thesis
    proof (cases c)
      case None
      with c dw show ?thesis by (simp add: deleteFileAtPath_def Let_def)
    next
      case (Some m)
      with g tv c have "\<not> truthy (get_child fs m (last ?parts))"
        by (auto simp: get_walk_snoc split: if_splits)
      with Some c dw ne show ?thesis
        by (simp add: deleteFileAtPath_def Let_def popped_key_def)
    qed
  qed
qed

text \<open>
  Claim C8 says that removing a path at which nothing exists answers false. Both walks
  read \<open>current.children[part]\<close>, which also finds what the child map inherits from
  \<open>Object.prototype\<close>. The seeded tree has no entry named \<open>constructor\<close>, yet deleting
  \<open>/constructor\<close> answers true, the first time and the second time; the tree itself is
  not altered.
\<close>

theorem delete_inherited_name_reports_true:
  "getFileFromPath seeded_files ''/constructor'' = ProtoMember ''constructor'' \<and>
   map_of (cmaps seeded_files ! 0) ''constructor'' = None \<and>
   deleteFileAtPath seeded_files ''/constructor'' = Inr (True, seeded_files) \<and>
   (case deleteFileAtPath seeded_files ''/constructor'' of
      Inl e \<Rightarrow> False
    | Inr (removed, fs) \<Rightarrow> deleteFileAtPath fs ''/constructor'' = Inr (True, seeded_files))"
  by (simp add: tree_eval)

subsection \<open>The tree of a new room\<close>



section \<open>Claims about the room registry\<close>

lemma map_of_update_other: "k' \<noteq> k \<Longrightarrow> map_of (AList.update k v al) k' = map_of al k'"
  by (simp add: update_conv')

lemma map_of_delete_same: "map_of (AList.delete k al) k = None"
  by (simp add: delete_conv')

lemma map_of_delete_None: "map_of al k' = None \<Longrightarrow> map_of (AList.delete k al) k' = None"
  by (simp add: delete_conv')

lemma rooms_file_event: "file_event rid' op s = Inr s' \<Longrightarrow> rooms s' = rooms s"
  by (auto simp: file_event_def split: option.splits sum.splits if_splits)

lemma rooms_join_missing:
  "map_of (rooms s) rid = None \<Longrightarrow> map_of (rooms (join_room sid rid' uname now s)) rid = None"
  by (cases "rid' = rid") (auto simp: join_room_def map_of_update_other split: option.splits)

lemma rooms_disconnect_missing:
  "map_of (rooms s) rid = None \<Longrightarrow> map_of (rooms (disconnect sid s)) rid = None"
proof -
  assume m: "map_of (rooms s) rid = None"
  have u: "map_of (AList.update rid' r (rooms s)) rid = None" if "map_of (rooms s) rid' = Some r'"
    for rid' r r'
    using that m by (cases "rid' = rid") (simp_all add: map_of_update_other)
  show ?thesis
    using m u
    by (auto simp: disconnect_def Let_def map_of_delete_None split: option.splits)
qed

lemma room_stays_missing_step:
  assumes "map_of (rooms s) rid = None" "\<not> creates_room rid ev" "server_step ev s = Inr s'"
  shows "map_of (rooms s') rid = None"
proof (cases ev)
  case (CreateRoom rid' now)
  with assms show ?thesis by (auto simp: createRoom_def map_of_update_other)
next
  case (JoinRoom sid rid' uname now)
  with assms show ?thesis by (auto simp: rooms_join_missing)
next
  case (FileEvent rid' op)
  with assms show ?thesis by (auto dest: rooms_file_event)
next
  case (CursorChange sid)
  with assms show ?thesis by auto
next
  case (Disconnect sid)
  with assms show ?thesis by (auto simp: rooms_disconnect_missing)
qed

lemma room_stays_missing:
  "map_of (rooms s) rid = None \<Longrightarrow> \<forall>ev \<in> set evs. \<not> creates_room rid ev \<Longrightarrow>
   server_run evs s = Inr s' \<Longrightarrow> map_of (rooms s') rid = None"
proof (induction evs arbitrary: s)
  case Nil
  then show ?case by simp
next
  case (Cons ev evs)
  from Cons.prems(3) obtain s1 where s1: "server_step ev s = Inr s1" "server_run evs s1 = Inr s'"
    by (auto split: sum.splits)
  from room_stays_missing_step [OF Cons.prems(1) _ s1(1)] Cons.prems(2)
  have "map_of (rooms s1) rid = None" by simp
  from Cons.IH [OF this _ s1(2)] Cons.prems(2) show ?case by simp
qed

text \<open>
  What holds of \<open>disconnect\<close>: when the disconnecting socket is recorded (by
  \<open>socket.roomId\<close>) in a room whose roster holds no other member, the room and its file
  tree are deleted by the handler itself, so that \<open>getRoom\<close> answers \<open>exists: false\<close>; and
  it keeps answering so after any further events, as long as no room is created under
  the same id.
\<close>

lemma recorded_room_deleted_on_last_disconnect:
  assumes "roomId (socket_of s sid) = Some rid" "rid \<noteq> []"
    and "map_of (rooms s) rid = Some r"
    and "\<forall>u \<in> set (users r). user_id u = sid"
  shows "getRoom rid (disconnect sid s) = RoomMissing \<and>
         map_of (roomFiles (disconnect sid s)) rid = None \<and>
         (\<forall>evs s'. (\<forall>ev \<in> set evs. \<not> creates_room rid ev) \<longrightarrow>
            server_run evs (disconnect sid s) = Inr s' \<longrightarrow> getRoom rid s' = RoomMissing)"
proof -
  from assms(4) have e: "filter (\<lambda>u. user_id u \<noteq> sid) (users r) = []"
    by (simp add: filter_empty_conv)
  from assms(1-3) e have m: "map_of (rooms (disconnect sid s)) rid = None"
    and f: "map_of (roomFiles (disconnect sid s)) rid = None"
    by (simp_all add: disconnect_def Let_def map_of_delete_same)
  have "getRoom rid s' = RoomMissing"
    if "\<forall>ev \<in> set evs. \<not> creates_room rid ev" "server_run evs (disconnect sid s) = Inr s'"
    for evs s'
    using room_stays_missing [OF m that] by (simp add: getRoom_def)
  with m f show ?thesis by (simp add: getRoom_def)
qed

lemma recorded_room_deleted_example:
  "getRoom ''a1b2c3d4''
     (disconnect ''sock1''
        (join_room ''sock1'' ''a1b2c3d4'' ''ann'' 2
           (createRoom ''a1b2c3d4'' 1 \<lparr>rooms = [], roomFiles = [], sockets = []\<rparr>))) = RoomMissing \<and>
   (case server_run
           [JoinRoom ''sock2'' ''a1b2c3d4'' ''bob'' 3, FileEvent ''a1b2c3d4'' (Delete ''/main.js'')]
           (disconnect ''sock1''
              (join_room ''sock1'' ''a1b2c3d4'' ''ann'' 2
                 (createRoom ''a1b2c3d4'' 1 \<lparr>rooms = [], roomFiles = [], sockets = []\<rparr>))) of
      Inl e \<Rightarrow> False
    | Inr s' \<Rightarrow> getRoom ''a1b2c3d4'' s' = RoomMissing)"
proof -
  let ?st = "join_room ''sock1'' ''a1b2c3d4'' ''ann'' 2
           (createRoom ''a1b2c3d4'' 1 \<lparr>rooms = [], roomFiles = [], sockets = []\<rparr>)"
  let ?evs = "[JoinRoom ''sock2'' ''a1b2c3d4'' ''bob'' 3, FileEvent ''a1b2c3d4'' (Delete ''/main.js'')]"
  have st: "?st = \<lparr>rooms = [(''a1b2c3d4'', \<lparr>room_id = ''a1b2c3d4'',
                users = [\<lparr>user_id = ''sock1'', user_name = ''ann'', joinedAt = 2\<rparr>],
                room_createdAt = 1\<rparr>)],
             roomFiles = [(''a1b2c3d4'', seeded_files)],
             sockets = [(''sock1'', \<lparr>roomId = Some ''a1b2c3d4'', userName = Some ''ann''\<rparr>)]\<rparr>"
    by (simp add: join_room_def createRoom_def)
  have h: "roomId (socket_of ?st ''sock1'') = Some ''a1b2c3d4''" "''a1b2c3d4'' \<noteq> []"
    "map_of (rooms ?st) ''a1b2c3d4'' = Some \<lparr>room_id = ''a1b2c3d4'',
                users = [\<lparr>user_id = ''sock1'', user_name = ''ann'', joinedAt = 2\<rparr>],
                room_createdAt = 1\<rparr>"
    "\<forall>u \<in> set (users \<lparr>room_id = ''a1b2c3d4'',
                users = [\<lparr>user_id = ''sock1'', user_name = ''ann'', joinedAt = 2\<rparr>],
                room_createdAt = 1\<rparr>). user_id u = ''sock1''"
    unfolding st by (simp_all add: socket_of_def)
  have r: "server_run ?evs (disconnect ''sock1'' ?st) =
     Inr \<lparr>rooms = [], roomFiles = [], sockets = []\<rparr>"
    unfolding st by (simp add: disconnect_def socket_of_def join_room_def file_event_def Let_def
        AList.delete_eq)
  have n: "\<forall>ev \<in> set ?evs. \<not> creates_room ''a1b2c3d4'' ev"
    by simp
  note t = recorded_room_deleted_on_last_disconnect [OF h]
  from t have a: "getRoom ''a1b2c3d4'' (disconnect ''sock1'' ?st) = RoomMissing" ..
  from t n r have b: "getRoom ''a1b2c3d4'' \<lparr>rooms = [], roomFiles = [], sockets = []\<rparr> = RoomMissing"
    by blast
  from a b r show ?thesis by simp
qed

text \<open>
  Claim C7 says this of every room whose last remaining member disconnects. The handler
  of \<open>join-room\<close> overwrites \<open>socket.roomId\<close> and adds the socket to the new roster
  without taking it off the roster of the room it joined before, and \<open>disconnect\<close> looks
  at \<open>socket.roomId\<close> alone. A socket that joins one room and then another is the only
  member of the first; when it disconnects, the second room is deleted, and the first
  stays in the registry with its tree and with the departed socket on its roster.
\<close>

theorem earlier_room_survives_last_disconnect:
  "server_run
     [CreateRoom ''aaaa1111'' 1, CreateRoom ''bbbb2222'' 2,
      JoinRoom ''sock1'' ''aaaa1111'' ''ann'' 3, JoinRoom ''sock1'' ''bbbb2222'' ''ann'' 4,
      Disconnect ''sock1'']
     \<lparr>rooms = [], roomFiles = [], sockets = []\<rparr> =
   Inr \<lparr>rooms =
          [(''aaaa1111'',
            \<lparr>room_id = ''aaaa1111'',
             users = [\<lparr>user_id = ''sock1'', user_name = ''ann'', joinedAt = 3\<rparr>],
             room_createdAt = 1\<rparr>)],
        roomFiles = [(''aaaa1111'', seeded_files)],
        sockets = []\<rparr> \<and>
   getRoom ''aaaa1111''
     \<lparr>rooms =
        [(''aaaa1111'',
          \<lparr>room_id = ''aaaa1111'',
           users = [\<lparr>user_id = ''sock1'', user_name = ''ann'', joinedAt = 3\<rparr>],
           room_createdAt = 1\<rparr>)],
      roomFiles = [(''aaaa1111'', seeded_files)],
      sockets = []\<rparr> =
     RoomFound
       \<lparr>room_id = ''aaaa1111'',
        users = [\<lparr>user_id = ''sock1'', user_name = ''ann'', joinedAt = 3\<rparr>],
        room_createdAt = 1\<rparr>"
  by (simp add: createRoom_def join_room_def disconnect_def socket_of_def getRoom_def Let_def
      AList.delete_eq)

end
